theory Spec2Isabelle
  imports Main "HOL-Library.Sublist"
begin

section \<open>The node-classification notebook as a program over its libraries\<close>

text \<open>
  The repository is one notebook, \<^verbatim>\<open>notebooks/stochastic_training/node_classification.ipynb\<close>.
  Its code cells are a straight-line script over torch, dgl, dgl.graphbolt, numpy,
  scikit-learn and tqdm. The libraries are not part of the notebook: every library call is
  a field of an environment record, and the theorems hold for every environment. Library
  objects (tensors, graphs, minibatches, optimizers) are values of one type variable \<open>'v\<close>,
  as Python's objects are dynamically typed.
\<close>

subsection \<open>Exceptions\<close>

datatype exn_class =
    ImportError | ModuleNotFoundError | NameError | KeyError | IndexError
  | StopIteration | OtherError string

datatype exn = Exn exn_class string

text \<open>\<^verbatim>\<open>except ImportError\<close> matches the class and its builtin subclass.\<close>

fun is_ImportError :: "exn \<Rightarrow> bool" where
  "is_ImportError (Exn c m) = (c = ImportError \<or> c = ModuleNotFoundError)"

text \<open>\<^verbatim>\<open>str(error)\<close>, what \<^verbatim>\<open>print(error)\<close> shows.\<close>

fun message :: "exn \<Rightarrow> string" where
  "message (Exn c m) = m"

definition bindE :: "exn + 'a \<Rightarrow> ('a \<Rightarrow> exn + 'b) \<Rightarrow> exn + 'b" where
  "bindE r f = (case r of Inl e \<Rightarrow> Inl e | Inr x \<Rightarrow> f x)"

text \<open>Python's \<^verbatim>\<open>xs[i]\<close> and \<^verbatim>\<open>d[k]\<close> raise where HOL's would be unspecified.\<close>

definition index_list :: "'a list \<Rightarrow> nat \<Rightarrow> exn + 'a" where
  "index_list xs i =
     (if i < length xs then Inr (xs ! i) else Inl (Exn IndexError ''list index out of range''))"

definition lookup :: "(string \<rightharpoonup> 'a) \<Rightarrow> string \<Rightarrow> exn + 'a" where
  "lookup d k = (case d k of None \<Rightarrow> Inl (Exn KeyError k) | Some x \<Rightarrow> Inr x)"

subsection \<open>Devices, data pipes, the model class\<close>

datatype torch_device = Device string

text \<open>Line 50: \<^verbatim>\<open>device = torch.device("cpu")\<close>.\<close>

definition device :: torch_device where
  "device = Device ''cpu''"

text \<open>
  A graphbolt data pipe is built stage by stage; the constructors are the calls of
  \<^verbatim>\<open>create_dataloader\<close>, each holding the pipe it was applied to and its arguments.
\<close>

datatype 'v datapipe =
    ItemSampler 'v int bool
  | copy_to "'v datapipe" torch_device "string list"
  | sample_neighbor "'v datapipe" 'v "int list"
  | fetch_feature "'v datapipe" 'v "string list"

datatype 'v dataloader = DataLoader "'v datapipe"

record 'v SAGEConv =
  in_feats :: 'v
  out_feats :: 'v
  aggregator_type :: string
  weights :: 'v
  training :: bool

record 'v Model =
  conv1 :: "'v SAGEConv"
  conv2 :: "'v SAGEConv"
  h_feats :: 'v

subsection \<open>The libraries\<close>

record 'v python =
  import_outcome :: "string \<Rightarrow> exn option"
  torch_version :: string
  str_of :: "'v \<Rightarrow> string"
  fmt3 :: "'v \<Rightarrow> string"
  py_int :: "int \<Rightarrow> 'v"
  accuracy_score :: "'v \<Rightarrow> 'v \<Rightarrow> exn + 'v"
  concatenate :: "'v list \<Rightarrow> exn + 'v"

record 'v graphbolt =
  load :: "string \<Rightarrow> exn + 'v"
  ds_graph :: "'v \<Rightarrow> 'v"
  ds_feature :: "'v \<Rightarrow> 'v"
  ds_tasks :: "'v \<Rightarrow> 'v list"
  task_train_set :: "'v \<Rightarrow> 'v"
  task_validation_set :: "'v \<Rightarrow> 'v"
  task_test_set :: "'v \<Rightarrow> 'v"
  task_metadata :: "'v \<Rightarrow> (string \<rightharpoonup> 'v)"
  to_device :: "'v \<Rightarrow> torch_device \<Rightarrow> exn + 'v"
  feature_size :: "'v \<Rightarrow> string \<Rightarrow> string option \<Rightarrow> string \<Rightarrow> exn + 'v list"
  item_batches :: "'v \<Rightarrow> int \<Rightarrow> bool \<Rightarrow> nat \<Rightarrow> (exn + 'v) list"
  run_copy_to :: "torch_device \<Rightarrow> string list \<Rightarrow> 'v \<Rightarrow> exn + 'v"
  run_sample_neighbor :: "'v \<Rightarrow> int list \<Rightarrow> 'v \<Rightarrow> exn + 'v"
  run_fetch_feature :: "'v \<Rightarrow> string list \<Rightarrow> 'v \<Rightarrow> exn + 'v"
  mb_blocks :: "'v \<Rightarrow> 'v list"
  mb_node_features :: "'v \<Rightarrow> (string \<rightharpoonup> 'v)"
  mb_labels :: "'v \<Rightarrow> 'v"
  srcdata :: "'v \<Rightarrow> (string \<rightharpoonup> 'v)"
  NID :: string

record 'v torch =
  SAGEConv_init :: "'v \<Rightarrow> 'v \<Rightarrow> string \<Rightarrow> nat \<Rightarrow> exn + 'v"
  SAGEConv_forward :: "'v SAGEConv \<Rightarrow> 'v \<Rightarrow> 'v \<Rightarrow> exn + 'v"
  relu :: "'v \<Rightarrow> 'v"
  module_to :: "'v \<times> 'v \<Rightarrow> torch_device \<Rightarrow> exn + 'v \<times> 'v"
  Adam :: "'v \<times> 'v \<Rightarrow> exn + 'v"
  cross_entropy :: "'v \<Rightarrow> 'v \<Rightarrow> exn + 'v"
  zero_grad :: "'v option \<Rightarrow> exn + 'v option"
  backward :: "'v \<Rightarrow> 'v option \<Rightarrow> exn + 'v option"
  step :: "'v \<Rightarrow> 'v \<times> 'v \<Rightarrow> 'v option \<Rightarrow> exn + 'v \<times> 'v \<times> 'v"
  argmax :: "'v \<Rightarrow> int \<Rightarrow> 'v"
  detach :: "'v \<Rightarrow> 'v"
  cpu :: "'v \<Rightarrow> 'v"
  numpy :: "'v \<Rightarrow> 'v"
  item :: "'v \<Rightarrow> 'v"
  device_of :: "'v \<Rightarrow> torch_device"

record 'v env =
  py :: "'v python"
  gb :: "'v graphbolt"
  torch :: "'v torch"

subsection \<open>What a run leaves behind: the heap and the execution trace\<close>

text \<open>
  The heap holds what the notebook's objects can mutate: the model and its gradients, the
  optimizer, the state of the random source (shuffling, weight initialisation), and the
  files of the machine.
\<close>

record 'v heap =
  files :: "string \<rightharpoonup> string"
  rng :: nat
  model :: "'v Model option"
  grads :: "'v option"
  opt :: "'v option"

datatype 'v api =
    BuiltinDataset_load string
  | To_device torch_device
  | DataLoader_new "'v datapipe"
  | Iter
  | Next
  | Feature_size
  | SAGEConv_new
  | Adam_new
  | Model_train
  | Model_eval
  | Model_call
  | F_cross_entropy
  | Zero_grad
  | Backward
  | Opt_step
  | Accuracy_score
  | Np_concatenate

datatype ctx = Tqdm | No_grad

text \<open>
  The sequential cell execution trace: every statement with an effect outside the
  interpreter's variables leaves one event, a library call with the objects passed to it.
\<close>

datatype 'v event =
    Import string
  | SetEnv string string
  | Shell string
  | Print string
  | Postfix string string
  | Enter ctx
  | Exit ctx
  | Call "'v api" "'v list"
  | Raise exn
  | Caught exn

type_synonym ('v, 'a) prog = "'v heap \<Rightarrow> (exn + 'a) \<times> 'v heap \<times> 'v event list"

definition result :: "(exn + 'a) \<times> 'v heap \<times> 'v event list \<Rightarrow> exn + 'a" where
  "result out = fst out"

definition heap_of :: "(exn + 'a) \<times> 'v heap \<times> 'v event list \<Rightarrow> 'v heap" where
  "heap_of out = fst (snd out)"

definition events :: "(exn + 'a) \<times> 'v heap \<times> 'v event list \<Rightarrow> 'v event list" where
  "events out = snd (snd out)"

definition ret :: "'a \<Rightarrow> ('v, 'a) prog" where
  "ret x = (\<lambda>h. (Inr x, h, []))"

definition raise :: "exn \<Rightarrow> ('v, 'a) prog" where
  "raise e = (\<lambda>h. (Inl e, h, [Raise e]))"

definition andThen :: "('v, 'a) prog \<Rightarrow> ('a \<Rightarrow> ('v, 'b) prog) \<Rightarrow> ('v, 'b) prog" where
  "andThen m f = (\<lambda>h. case m h of
       (Inl e, h', t) \<Rightarrow> (Inl e, h', t)
     | (Inr x, h', t) \<Rightarrow> (case f x h' of (r, h'', t') \<Rightarrow> (r, h'', t @ t')))"

definition seq :: "('v, 'a) prog \<Rightarrow> ('v, 'b) prog \<Rightarrow> ('v, 'b) prog" where
  "seq m n = andThen m (\<lambda>_. n)"

definition emit :: "'v event \<Rightarrow> ('v, unit) prog" where
  "emit ev = (\<lambda>h. (Inr (), h, [ev]))"

definition lift :: "exn + 'a \<Rightarrow> ('v, 'a) prog" where
  "lift r = (case r of Inl e \<Rightarrow> raise e | Inr x \<Rightarrow> ret x)"

definition call :: "'v api \<Rightarrow> 'v list \<Rightarrow> exn + 'a \<Rightarrow> ('v, 'a) prog" where
  "call f args r = seq (emit (Call f args)) (lift r)"

definition getH :: "('v heap \<Rightarrow> 'a) \<Rightarrow> ('v, 'a) prog" where
  "getH f = (\<lambda>h. (Inr (f h), h, []))"

definition modify :: "('v heap \<Rightarrow> 'v heap) \<Rightarrow> ('v, unit) prog" where
  "modify f = (\<lambda>h. (Inr (), f h, []))"

text \<open>A random draw: the state of the random source, which then moves on.\<close>

definition fresh :: "('v, nat) prog" where
  "fresh = (\<lambda>h. (Inr (rng h), h\<lparr>rng := Suc (rng h)\<rparr>, []))"

text \<open>
  \<^verbatim>\<open>with cm: body\<close> for tqdm and \<^verbatim>\<open>torch.no_grad()\<close>: the manager is left on every
  path and an exception of the body goes on (neither \<^verbatim>\<open>__exit__\<close> suppresses it).
\<close>

definition with_block :: "ctx \<Rightarrow> ('v, 'a) prog \<Rightarrow> ('v, 'a) prog" where
  "with_block c body = (\<lambda>h. case body h of (r, h', t) \<Rightarrow> (r, h', [Enter c] @ t @ [Exit c]))"

text \<open>\<^verbatim>\<open>try: body except ImportError as error: handler\<close>.\<close>

definition try_except_ImportError ::
  "('v, 'a) prog \<Rightarrow> (exn \<Rightarrow> ('v, 'a) prog) \<Rightarrow> ('v, 'a) prog" where
  "try_except_ImportError body handler = (\<lambda>h. case body h of
       (Inl e, h', t) \<Rightarrow>
         (if is_ImportError e
          then (case handler e h' of (r, h'', t') \<Rightarrow> (r, h'', t @ [Caught e] @ t'))
          else (Inl e, h', t))
     | (Inr x, h', t) \<Rightarrow> (Inr x, h', t))"

definition import_stmt :: "'v env \<Rightarrow> string \<Rightarrow> ('v, unit) prog" where
  "import_stmt env name =
     (case import_outcome (py env) name of None \<Rightarrow> emit (Import name) | Some e \<Rightarrow> raise e)"

text \<open>A global that a later cell reads before any cell has bound it is a NameError.\<close>

definition get_model :: "('v, 'v Model) prog" where
  "get_model = andThen (getH model)
     (\<lambda>m. case m of None \<Rightarrow> raise (Exn NameError ''model'') | Some m' \<Rightarrow> ret m')"

definition get_opt :: "('v, 'v) prog" where
  "get_opt = andThen (getH opt)
     (\<lambda>m. case m of None \<Rightarrow> raise (Exn NameError ''opt'') | Some o' \<Rightarrow> ret o')"

text \<open>Decimal digits of a nonnegative integer, for \<^verbatim>\<open>"{}".format(epoch)\<close>.\<close>

fun str_nat :: "nat \<Rightarrow> string" where
  "str_nat n =
     (if n < 10 then [char_of (48 + n)] else str_nat (n div 10) @ [char_of (48 + n mod 10)])"

subsection \<open>Cell 1 (lines 40-60): install and import\<close>

definition cell_install :: "'v env \<Rightarrow> ('v, bool) prog" where
  "cell_install env =
     seq (import_stmt env ''os'')
    (seq (import_stmt env ''torch'')
    (seq (import_stmt env ''numpy'')
    (seq (emit (SetEnv ''TORCH'' (torch_version (py env))))
    (seq (emit (SetEnv ''DGLBACKEND'' ''pytorch''))
    (seq (emit (Shell ''pip install --pre dgl -f https://data.dgl.ai/wheels-test/repo.html''))
    (andThen
       (try_except_ImportError
          (seq (import_stmt env ''dgl'')
          (seq (import_stmt env ''dgl.graphbolt'')
               (ret True)))
          (\<lambda>error. seq (emit (Print (message error))) (ret False)))
       (\<lambda>installed.
          seq (emit (Print (if installed then ''DGL installed!'' else ''DGL not found!'')))
              (ret installed))))))))"

subsection \<open>Cells 2 and 3 (lines 81, 101-108): the dataset and its task\<close>

text \<open>The name \<^verbatim>\<open>gb\<close> is bound only when the guarded imports went through.\<close>

definition cell_dataset :: "'v env \<Rightarrow> bool \<Rightarrow> ('v, 'v) prog" where
  "cell_dataset env installed =
     (if installed
      then call (BuiltinDataset_load ''ogbn-arxiv-seeds'') [] (load (gb env) ''ogbn-arxiv-seeds'')
      else raise (Exn NameError ''gb''))"

record 'v globals =
  graph :: 'v
  feature :: 'v
  train_set :: 'v
  valid_set :: 'v
  test_set :: 'v
  task_name :: 'v
  num_classes :: 'v

text \<open>Line 108: \<^verbatim>\<open>f"Task: {task_name}. Number of classes: {num_classes}"\<close>.\<close>

definition task_line :: "'v env \<Rightarrow> 'v \<Rightarrow> 'v \<Rightarrow> string" where
  "task_line env name classes =
     ''Task: '' @ str_of (py env) name @ ''. Number of classes: '' @ str_of (py env) classes"

definition task0 :: "'v env \<Rightarrow> 'v \<Rightarrow> ('v, 'v) prog" where
  "task0 env dataset = lift (index_list (ds_tasks (gb env) dataset) 0)"

definition cell_task :: "'v env \<Rightarrow> 'v \<Rightarrow> ('v, 'v globals) prog" where
  "cell_task env dataset =
     andThen (call (To_device device) [ds_graph (gb env) dataset]
                (to_device (gb env) (ds_graph (gb env) dataset) device)) (\<lambda>graph'.
     andThen (call (To_device device) [ds_feature (gb env) dataset]
                (to_device (gb env) (ds_feature (gb env) dataset) device)) (\<lambda>feature'.
     andThen (task0 env dataset) (\<lambda>t1.
     andThen (task0 env dataset) (\<lambda>t2.
     andThen (task0 env dataset) (\<lambda>t3.
     andThen (task0 env dataset) (\<lambda>t4.
     andThen (lift (lookup (task_metadata (gb env) t4) ''name'')) (\<lambda>task_name'.
     andThen (task0 env dataset) (\<lambda>t5.
     andThen (lift (lookup (task_metadata (gb env) t5) ''num_classes'')) (\<lambda>num_classes'.
     seq (emit (Print (task_line env task_name' num_classes')))
         (ret \<lparr>graph = graph', feature = feature',
               train_set = task_train_set (gb env) t1,
               valid_set = task_validation_set (gb env) t2,
               test_set = task_test_set (gb env) t3,
               task_name = task_name', num_classes = num_classes'\<rparr>))))))))))"

subsection \<open>Cell 4 (lines 144-149): \<^verbatim>\<open>create_dataloader\<close>\<close>

text \<open>The globals \<^verbatim>\<open>device\<close>, \<^verbatim>\<open>graph\<close> and \<^verbatim>\<open>feature\<close> that the function reads are \<open>g\<close>.\<close>

definition create_dataloader :: "'v globals \<Rightarrow> 'v \<Rightarrow> bool \<Rightarrow> ('v, 'v dataloader) prog" where
  "create_dataloader g itemset shuffle =
     (let datapipe = ItemSampler itemset 1024 shuffle;
          datapipe = copy_to datapipe device [''seeds''];
          datapipe = sample_neighbor datapipe (graph g) [4, 4];
          datapipe = fetch_feature datapipe (feature g) [''feat'']
      in seq (emit (Call (DataLoader_new datapipe) [])) (ret (DataLoader datapipe)))"

text \<open>
  Modelled from the spec: graphbolt's iteration of a data loader, whose code is not in the
  notebook. A minibatch is "a batch of seed nodes with sampled neighborhoods and fetched
  features, produced by the external data pipeline", and the notebook's text has the
  operations "split into separate stages in the data pipe": the item sampler yields the
  batches of one pass, and every later stage is applied to each item that comes through;
  an item on which a stage raises carries the exception. The stages' own work stays a
  parameter of the environment.
\<close>

fun run_datapipe :: "'v env \<Rightarrow> 'v datapipe \<Rightarrow> nat \<Rightarrow> (exn + 'v) list" where
  "run_datapipe env (ItemSampler itemset batch_size shuffle) k =
     item_batches (gb env) itemset batch_size shuffle k"
| "run_datapipe env (copy_to dp dev attrs) k =
     map (\<lambda>r. bindE r (run_copy_to (gb env) dev attrs)) (run_datapipe env dp k)"
| "run_datapipe env (sample_neighbor dp gr fanouts) k =
     map (\<lambda>r. bindE r (run_sample_neighbor (gb env) gr fanouts)) (run_datapipe env dp k)"
| "run_datapipe env (fetch_feature dp fs keys) k =
     map (\<lambda>r. bindE r (run_fetch_feature (gb env) fs keys)) (run_datapipe env dp k)"

fun pipe_of :: "'v dataloader \<Rightarrow> 'v datapipe" where
  "pipe_of (DataLoader dp) = dp"

text \<open>\<^verbatim>\<open>iter(loader)\<close> starts a pass; the pass draws on the random source.\<close>

definition iter_loader :: "'v env \<Rightarrow> 'v dataloader \<Rightarrow> ('v, (exn + 'v) list) prog" where
  "iter_loader env dl =
     seq (emit (Call Iter []))
         (andThen fresh (\<lambda>k. ret (run_datapipe env (pipe_of dl) k)))"

subsection \<open>Cells 5 and 6 (lines 170-171, 191-193): a first minibatch\<close>

definition cell_preview :: "'v env \<Rightarrow> 'v globals \<Rightarrow> ('v, 'v) prog" where
  "cell_preview env g =
     andThen (create_dataloader g (train_set g) True) (\<lambda>dl.
     andThen (iter_loader env dl) (\<lambda>it.
     andThen (case it of
                [] \<Rightarrow> seq (emit (Call Next [])) (raise (Exn StopIteration []))
              | r # rest \<Rightarrow> call Next [] r) (\<lambda>data.
     seq (emit (Print (str_of (py env) data)))
         (ret data))))"

text \<open>Line 193: \<^verbatim>\<open>f"Input nodes: {input_nodes}."\<close>.\<close>

definition input_nodes_line :: "'v env \<Rightarrow> 'v \<Rightarrow> string" where
  "input_nodes_line env input_nodes = ''Input nodes: '' @ str_of (py env) input_nodes @ ''.''"

definition cell_input_nodes :: "'v env \<Rightarrow> 'v \<Rightarrow> ('v, unit) prog" where
  "cell_input_nodes env data =
     (let mfgs = mb_blocks (gb env) data in
      andThen (lift (index_list mfgs 0)) (\<lambda>mfg0.
      andThen (lift (lookup (srcdata (gb env) mfg0) (NID (gb env)))) (\<lambda>input_nodes.
      emit (Print (input_nodes_line env input_nodes)))))"

subsection \<open>Cell 7 (lines 215-235): the model\<close>

text \<open>
  \<^verbatim>\<open>SAGEConv(in_feats, out_feats, aggregator_type=...)\<close>: the layer keeps its arguments;
  its initial weights are the library's, drawn at random. A new module is in training mode.
\<close>

definition make_SAGEConv :: "'v env \<Rightarrow> 'v \<Rightarrow> 'v \<Rightarrow> string \<Rightarrow> ('v, 'v SAGEConv) prog" where
  "make_SAGEConv env i out agg =
     andThen fresh (\<lambda>k.
     andThen (call SAGEConv_new [i, out] (SAGEConv_init (torch env) i out agg k)) (\<lambda>w.
     ret \<lparr>in_feats = i, out_feats = out, aggregator_type = agg, weights = w,
          training = True\<rparr>))"

text \<open>\<^verbatim>\<open>Model.__init__\<close>, lines 221-225.\<close>

definition Model_init :: "'v env \<Rightarrow> 'v \<Rightarrow> 'v \<Rightarrow> 'v \<Rightarrow> ('v, 'v Model) prog" where
  "Model_init env in_feats' h_feats' num_classes' =
     andThen (make_SAGEConv env in_feats' h_feats' ''mean'') (\<lambda>c1.
     andThen (make_SAGEConv env h_feats' num_classes' ''mean'') (\<lambda>c2.
     ret \<lparr>conv1 = c1, conv2 = c2, h_feats = h_feats'\<rparr>))"

text \<open>\<^verbatim>\<open>Model.forward\<close>, lines 227-231.\<close>

definition forward :: "'v env \<Rightarrow> 'v Model \<Rightarrow> 'v list \<Rightarrow> 'v \<Rightarrow> exn + 'v" where
  "forward env self mfgs x =
     bindE (index_list mfgs 0) (\<lambda>mfg0.
     bindE (SAGEConv_forward (torch env) (conv1 self) mfg0 x) (\<lambda>h.
     let h = relu (torch env) h in
     bindE (index_list mfgs 1) (\<lambda>mfg1.
     bindE (SAGEConv_forward (torch env) (conv2 self) mfg1 h) (\<lambda>h.
     Inr h))))"

text \<open>The parameters of the module are those of its two layers.\<close>

definition parameters :: "'v Model \<Rightarrow> 'v \<times> 'v" where
  "parameters m = (weights (conv1 m), weights (conv2 m))"

definition set_parameters :: "'v Model \<Rightarrow> 'v \<times> 'v \<Rightarrow> 'v Model" where
  "set_parameters m ps =
     m\<lparr>conv1 := (conv1 m)\<lparr>weights := fst ps\<rparr>, conv2 := (conv2 m)\<lparr>weights := snd ps\<rparr>\<rparr>"

definition set_training :: "'v Model \<Rightarrow> bool \<Rightarrow> 'v Model" where
  "set_training m b =
     m\<lparr>conv1 := (conv1 m)\<lparr>training := b\<rparr>, conv2 := (conv2 m)\<lparr>training := b\<rparr>\<rparr>"

definition params_list :: "'v Model \<Rightarrow> 'v list" where
  "params_list m = [weights (conv1 m), weights (conv2 m)]"

definition Model_to :: "'v env \<Rightarrow> 'v Model \<Rightarrow> torch_device \<Rightarrow> ('v, 'v Model) prog" where
  "Model_to env m d =
     andThen (call (To_device d) (params_list m) (module_to (torch env) (parameters m) d))
       (\<lambda>ps. ret (set_parameters m ps))"

definition cell_model :: "'v env \<Rightarrow> 'v globals \<Rightarrow> ('v, unit) prog" where
  "cell_model env g =
     seq (import_stmt env ''torch.nn'')
    (seq (import_stmt env ''torch.nn.functional'')
    (seq (import_stmt env ''dgl.nn'')
    (andThen (call Feature_size [feature g]
                (feature_size (gb env) (feature g) ''node'' None ''feat'')) (\<lambda>sz.
     andThen (lift (index_list sz 0)) (\<lambda>in_size.
     andThen (Model_init env in_size (py_int (py env) 64) (num_classes g)) (\<lambda>m.
     andThen (Model_to env m device) (\<lambda>m'.
     modify (\<lambda>h. h\<lparr>model := Some m'\<rparr>))))))))"

subsection \<open>Cells 8 and 9 (lines 257, 277-280): optimizer and data loaders\<close>

definition cell_opt :: "'v env \<Rightarrow> ('v, unit) prog" where
  "cell_opt env =
     andThen get_model (\<lambda>m.
     andThen (call Adam_new (params_list m) (Adam (torch env) (parameters m))) (\<lambda>opt'.
     modify (\<lambda>h. h\<lparr>opt := Some opt'\<rparr>)))"

definition cell_loaders :: "'v env \<Rightarrow> 'v globals \<Rightarrow> ('v, 'v dataloader \<times> 'v dataloader) prog" where
  "cell_loaders env g =
     andThen (create_dataloader g (train_set g) True) (\<lambda>train_dataloader.
     andThen (create_dataloader g (valid_set g) False) (\<lambda>valid_dataloader.
     seq (import_stmt env ''sklearn.metrics'')
         (ret (train_dataloader, valid_dataloader))))"

subsection \<open>Cell 10 (lines 300-339): training with validation\<close>

definition model_call :: "'v env \<Rightarrow> 'v list \<Rightarrow> 'v \<Rightarrow> ('v, 'v) prog" where
  "model_call env mfgs x =
     andThen get_model (\<lambda>m. call Model_call (mfgs @ [x] @ params_list m) (forward env m mfgs x))"

definition model_train :: "('v, unit) prog" where
  "model_train =
     andThen get_model (\<lambda>m.
     seq (emit (Call Model_train []))
         (modify (\<lambda>h. h\<lparr>model := Some (set_training m True)\<rparr>)))"

definition model_eval :: "('v, unit) prog" where
  "model_eval =
     andThen get_model (\<lambda>m.
     seq (emit (Call Model_eval []))
         (modify (\<lambda>h. h\<lparr>model := Some (set_training m False)\<rparr>)))"

definition opt_zero_grad :: "'v env \<Rightarrow> ('v, unit) prog" where
  "opt_zero_grad env =
     andThen get_opt (\<lambda>opt'.
     andThen (getH grads) (\<lambda>g.
     andThen (call Zero_grad [] (zero_grad (torch env) g)) (\<lambda>g'.
     modify (\<lambda>h. h\<lparr>grads := g'\<rparr>))))"

definition loss_backward :: "'v env \<Rightarrow> 'v \<Rightarrow> ('v, unit) prog" where
  "loss_backward env loss =
     andThen (getH grads) (\<lambda>g.
     andThen (call Backward [loss] (backward (torch env) loss g)) (\<lambda>g'.
     modify (\<lambda>h. h\<lparr>grads := g'\<rparr>)))"

definition opt_step :: "'v env \<Rightarrow> ('v, unit) prog" where
  "opt_step env =
     andThen get_opt (\<lambda>opt'.
     andThen get_model (\<lambda>m.
     andThen (getH grads) (\<lambda>g.
     andThen (call Opt_step (params_list m) (step (torch env) opt' (parameters m) g)) (\<lambda>r.
     modify (\<lambda>h. h\<lparr>opt := Some (fst r), model := Some (set_parameters m (snd r))\<rparr>)))))"

text \<open>The body of the training loop for one minibatch, lines 307-325.\<close>

definition train_step :: "'v env \<Rightarrow> 'v \<Rightarrow> ('v, unit) prog" where
  "train_step env data =
     andThen (lift (lookup (mb_node_features (gb env) data) ''feat'')) (\<lambda>x.
     let labels = mb_labels (gb env) data in
     andThen (model_call env (mb_blocks (gb env) data) x) (\<lambda>predictions.
     andThen (call F_cross_entropy [predictions, labels]
                (cross_entropy (torch env) predictions labels)) (\<lambda>loss.
     seq (opt_zero_grad env)
    (seq (loss_backward env loss)
    (seq (opt_step env)
    (let y_true = numpy (torch env) (cpu (torch env) labels);
          y_pred = numpy (torch env) (cpu (torch env)
                     (detach (torch env) (argmax (torch env) predictions 1)))
     in andThen (call Accuracy_score [y_true, y_pred]
                   (accuracy_score (py env) y_true y_pred)) (\<lambda>accuracy.
        emit (Postfix (fmt3 (py env) (item (torch env) loss)) (fmt3 (py env) accuracy)))))))))"

text \<open>
  \<^verbatim>\<open>for step, data in enumerate(tq)\<close> over the items of one pass: each turn takes the
  next item from the loader, which may raise instead, and runs the body on it.
\<close>

definition train_iteration :: "'v env \<Rightarrow> exn + 'v \<Rightarrow> ('v, unit) prog" where
  "train_iteration env r = andThen (call Next [] r) (\<lambda>data. train_step env data)"

fun train_loop :: "'v env \<Rightarrow> (exn + 'v) list \<Rightarrow> ('v, unit) prog" where
  "train_loop env [] = ret ()"
| "train_loop env (r # rest) = seq (train_iteration env r) (train_loop env rest)"

definition train_phase :: "'v env \<Rightarrow> 'v dataloader \<Rightarrow> ('v, unit) prog" where
  "train_phase env train_dataloader =
     seq model_train
         (with_block Tqdm
            (andThen (iter_loader env train_dataloader) (\<lambda>tq. train_loop env tq)))"

text \<open>\<^verbatim>\<open>for data in tq\<close> of the validation, lines 332-335, with the two lists it fills.\<close>

fun valid_loop :: "'v env \<Rightarrow> (exn + 'v) list \<Rightarrow> 'v list \<Rightarrow> 'v list \<Rightarrow> ('v, 'v list \<times> 'v list) prog" where
  "valid_loop env [] predictions labels = ret (predictions, labels)"
| "valid_loop env (r # rest) predictions labels =
     andThen (call Next [] r) (\<lambda>data.
     andThen (lift (lookup (mb_node_features (gb env) data) ''feat'')) (\<lambda>x.
     let labels = labels @ [numpy (torch env) (cpu (torch env) (mb_labels (gb env) data))] in
     andThen (model_call env (mb_blocks (gb env) data) x) (\<lambda>p.
     let predictions = predictions @ [numpy (torch env) (cpu (torch env) (argmax (torch env) p 1))]
     in valid_loop env rest predictions labels)))"

text \<open>Line 339: \<^verbatim>\<open>"Epoch {} Validation Accuracy {}".format(epoch, accuracy)\<close>.\<close>

definition epoch_line :: "'v env \<Rightarrow> nat \<Rightarrow> 'v \<Rightarrow> string" where
  "epoch_line env epoch accuracy =
     ''Epoch '' @ str_nat epoch @ '' Validation Accuracy '' @ str_of (py env) accuracy"

text \<open>Lines 336-339, once the loop has filled the two lists.\<close>

definition valid_report :: "'v env \<Rightarrow> nat \<Rightarrow> 'v list \<Rightarrow> 'v list \<Rightarrow> ('v, unit) prog" where
  "valid_report env epoch predictions labels =
     andThen (call Np_concatenate predictions (concatenate (py env) predictions))
       (\<lambda>predictions.
     andThen (call Np_concatenate labels (concatenate (py env) labels)) (\<lambda>labels.
     andThen (call Accuracy_score [labels, predictions]
                (accuracy_score (py env) labels predictions)) (\<lambda>accuracy.
     emit (Print (epoch_line env epoch accuracy)))))"

text \<open>What the two context managers of line 331 enclose, lines 332-339.\<close>

definition valid_body :: "'v env \<Rightarrow> 'v dataloader \<Rightarrow> nat \<Rightarrow> ('v, unit) prog" where
  "valid_body env valid_dataloader epoch =
     andThen (iter_loader env valid_dataloader) (\<lambda>tq.
     andThen (valid_loop env tq [] []) (\<lambda>lists.
     valid_report env epoch (fst lists) (snd lists)))"

definition valid_phase :: "'v env \<Rightarrow> 'v dataloader \<Rightarrow> nat \<Rightarrow> ('v, unit) prog" where
  "valid_phase env valid_dataloader epoch =
     seq model_eval
         (with_block Tqdm (with_block No_grad (valid_body env valid_dataloader epoch)))"

definition run_epoch :: "'v env \<Rightarrow> 'v dataloader \<Rightarrow> 'v dataloader \<Rightarrow> nat \<Rightarrow> ('v, unit) prog" where
  "run_epoch env train_dataloader valid_dataloader epoch =
     seq (train_phase env train_dataloader) (valid_phase env valid_dataloader epoch)"

text \<open>\<^verbatim>\<open>for epoch in range(10)\<close> is \<open>epochs\<close> over \<open>[0..<10]\<close>.\<close>

fun epochs :: "'v env \<Rightarrow> 'v dataloader \<Rightarrow> 'v dataloader \<Rightarrow> nat list \<Rightarrow> ('v, unit) prog" where
  "epochs env train_dataloader valid_dataloader [] = ret ()"
| "epochs env train_dataloader valid_dataloader (epoch # rest) =
     seq (run_epoch env train_dataloader valid_dataloader epoch)
         (epochs env train_dataloader valid_dataloader rest)"

definition cell_train :: "'v env \<Rightarrow> 'v dataloader \<Rightarrow> 'v dataloader \<Rightarrow> ('v, unit) prog" where
  "cell_train env train_dataloader valid_dataloader =
     seq (import_stmt env ''tqdm.auto'')
         (epochs env train_dataloader valid_dataloader [0..<10])"

subsection \<open>The notebook: its code cells, run in order\<close>

text \<open>Cells 5 and 6 together, and cells 7 to 10 together.\<close>

definition preview_cells :: "'v env \<Rightarrow> 'v globals \<Rightarrow> ('v, unit) prog" where
  "preview_cells env g = andThen (cell_preview env g) (\<lambda>data. cell_input_nodes env data)"

definition training_cells :: "'v env \<Rightarrow> 'v globals \<Rightarrow> ('v, unit) prog" where
  "training_cells env g =
     seq (cell_model env g)
    (seq (cell_opt env)
    (andThen (cell_loaders env g) (\<lambda>loaders.
     cell_train env (fst loaders) (snd loaders))))"

text \<open>The cells after the first; \<open>installed\<close> says whether the first one bound \<^verbatim>\<open>gb\<close>.\<close>

definition after_install :: "'v env \<Rightarrow> bool \<Rightarrow> ('v, unit) prog" where
  "after_install env installed =
     andThen (cell_dataset env installed) (\<lambda>dataset.
     andThen (cell_task env dataset) (\<lambda>g.
     seq (preview_cells env g) (training_cells env g)))"

definition notebook :: "'v env \<Rightarrow> ('v, unit) prog" where
  "notebook env = andThen (cell_install env) (\<lambda>installed. after_install env installed)"

subsection \<open>A small environment on which the notebook runs to its end\<close>

text \<open>
  Library objects are strings naming themselves: two tasks' worth of nothing, but every
  call answers. Each pass of a loader yields two minibatches, each with two message flow
  graphs and a \<open>feat\<close> feature; the optimizer step marks the weights it has updated.
\<close>

definition demo_py :: "string python" where
  "demo_py = \<lparr>
     import_outcome = (\<lambda>name. None),
     torch_version = ''2.1.0'',
     str_of = (\<lambda>v. v),
     fmt3 = (\<lambda>v. v),
     py_int = (\<lambda>i. if i = 64 then ''64'' else ''int''),
     accuracy_score = (\<lambda>labels predictions. Inr ''0.5''),
     concatenate = (\<lambda>xs. case xs of
         [] \<Rightarrow> Inl (Exn (OtherError ''ValueError'') ''need at least one array to concatenate'')
       | x # rest \<Rightarrow> Inr (concat xs))\<rparr>"

definition demo_gb :: "string graphbolt" where
  "demo_gb = \<lparr>
     load = (\<lambda>name. Inr ''dataset''),
     ds_graph = (\<lambda>d. ''graph''),
     ds_feature = (\<lambda>d. ''feature''),
     ds_tasks = (\<lambda>d. [''task'']),
     task_train_set = (\<lambda>t. ''train''),
     task_validation_set = (\<lambda>t. ''valid''),
     task_test_set = (\<lambda>t. ''test''),
     task_metadata = (\<lambda>t. [''name'' \<mapsto> ''node_classification'', ''num_classes'' \<mapsto> ''40'']),
     to_device = (\<lambda>v d. Inr v),
     feature_size = (\<lambda>f domain type_name name. Inr [''128'']),
     item_batches = (\<lambda>itemset batch_size shuffle k. [Inr (itemset @ ''0''), Inr (itemset @ ''1'')]),
     run_copy_to = (\<lambda>d attrs v. Inr v),
     run_sample_neighbor = (\<lambda>g fanouts v. Inr v),
     run_fetch_feature = (\<lambda>f keys v. Inr v),
     mb_blocks = (\<lambda>v. [''mfg0'', ''mfg1'']),
     mb_node_features = (\<lambda>v. [''feat'' \<mapsto> ''x'']),
     mb_labels = (\<lambda>v. ''y''),
     srcdata = (\<lambda>b. [''_ID'' \<mapsto> ''tensor([0, 1])'']),
     NID = ''_ID''\<rparr>"

definition demo_torch :: "string torch" where
  "demo_torch = \<lparr>
     SAGEConv_init = (\<lambda>i out agg k. Inr ''w''),
     SAGEConv_forward = (\<lambda>layer mfg x. Inr ''h''),
     relu = (\<lambda>v. v),
     module_to = (\<lambda>ps d. Inr ps),
     Adam = (\<lambda>ps. Inr ''adam''),
     cross_entropy = (\<lambda>predictions labels. Inr ''0.693''),
     zero_grad = (\<lambda>g. Inr None),
     backward = (\<lambda>loss g. Inr (Some ''grad'')),
     step = (\<lambda>opt' ps g. Inr (opt', fst ps @ ''+'', snd ps @ ''+'')),
     argmax = (\<lambda>v dim. v),
     detach = (\<lambda>v. v),
     cpu = (\<lambda>v. v),
     numpy = (\<lambda>v. v),
     item = (\<lambda>v. v),
     device_of = (\<lambda>v. Device ''cpu'')\<rparr>"

definition demo_env :: "string env" where
  "demo_env = \<lparr>py = demo_py, gb = demo_gb, torch = demo_torch\<rparr>"

definition heap0 :: "string heap" where
  "heap0 = \<lparr>files = Map.empty, rng = 0, model = None, grads = None, opt = None\<rparr>"

subsection \<open>Reading a trace\<close>

fun printed :: "'v event list \<Rightarrow> string list" where
  "printed [] = []"
| "printed (Print s # evs) = s # printed evs"
| "printed (ev # evs) = printed evs"

fun api_calls :: "'v event list \<Rightarrow> 'v api list" where
  "api_calls [] = []"
| "api_calls (Call f args # evs) = f # api_calls evs"
| "api_calls (ev # evs) = api_calls evs"

fun raised :: "'v event list \<Rightarrow> exn list" where
  "raised [] = []"
| "raised (Raise e # evs) = e # raised evs"
| "raised (ev # evs) = raised evs"

fun caught :: "'v event list \<Rightarrow> exn list" where
  "caught [] = []"
| "caught (Caught e # evs) = e # caught evs"
| "caught (ev # evs) = caught evs"

text \<open>The exception a run ends with, if it ends with one.\<close>

fun uncaught :: "exn + 'a \<Rightarrow> exn list" where
  "uncaught (Inl e) = [e]"
| "uncaught (Inr x) = []"

text \<open>
  A program keeps the part \<open>f\<close> of the heap and emits only events of the kind \<open>E\<close>,
  whatever heap it starts from and however it ends; and every exception raised in it is
  either caught in it or the one it ends with.
\<close>

definition sat :: "('v heap \<Rightarrow> 'b) \<Rightarrow> ('v event \<Rightarrow> bool) \<Rightarrow> ('v, 'a) prog \<Rightarrow> bool" where
  "sat f E m = (\<forall>h. f (heap_of (m h)) = f h \<and> list_all E (events (m h)) \<and>
                    raised (events (m h)) = caught (events (m h)) @ uncaught (result (m h)))"

text \<open>The devices a data pipe names.\<close>

fun pipe_devices :: "'v datapipe \<Rightarrow> torch_device list" where
  "pipe_devices (ItemSampler itemset batch_size shuffle) = []"
| "pipe_devices (copy_to dp dev attrs) = pipe_devices dp @ [dev]"
| "pipe_devices (sample_neighbor dp gr fanouts) = pipe_devices dp"
| "pipe_devices (fetch_feature dp fs keys) = pipe_devices dp"

text \<open>The devices an event names: those of a placement and those of a new loader's pipe.\<close>

fun event_devices :: "'v event \<Rightarrow> torch_device list" where
  "event_devices (Call (To_device d) args) = [d]"
| "event_devices (Call (DataLoader_new dp) args) = pipe_devices dp"
| "event_devices ev = []"

text \<open>The kinds of event of the three parts of the notebook.\<close>

fun install_event :: "'v event \<Rightarrow> bool" where
  "install_event (Import name) = True"
| "install_event (SetEnv k v) = True"
| "install_event (Shell cmd) = True"
| "install_event (Print s) = True"
| "install_event (Raise e) = True"
| "install_event (Caught e) = is_ImportError e"
| "install_event ev = False"

fun setup_api :: "'v api \<Rightarrow> bool" where
  "setup_api (BuiltinDataset_load name) = True"
| "setup_api (To_device d) = True"
| "setup_api (DataLoader_new dp) = True"
| "setup_api Iter = True"
| "setup_api Next = True"
| "setup_api Feature_size = True"
| "setup_api SAGEConv_new = True"
| "setup_api Adam_new = True"
| "setup_api f = False"

fun setup_event :: "'v event \<Rightarrow> bool" where
  "setup_event (Import name) = True"
| "setup_event (Print s) = True"
| "setup_event (Raise e) = True"
| "setup_event (Call f args) = (setup_api f \<and> list_all (\<lambda>d. d = device) (event_devices (Call f args)))"
| "setup_event ev = False"

fun training_api :: "'v api \<Rightarrow> bool" where
  "training_api Model_train = True"
| "training_api Model_eval = True"
| "training_api Iter = True"
| "training_api Next = True"
| "training_api Model_call = True"
| "training_api F_cross_entropy = True"
| "training_api Zero_grad = True"
| "training_api Backward = True"
| "training_api Opt_step = True"
| "training_api Accuracy_score = True"
| "training_api Np_concatenate = True"
| "training_api f = False"

fun training_event :: "'v event \<Rightarrow> bool" where
  "training_event (Import name) = (name = ''tqdm.auto'')"
| "training_event (Print s) = True"
| "training_event (Postfix loss acc) = True"
| "training_event (Enter c) = True"
| "training_event (Exit c) = True"
| "training_event (Raise e) = True"
| "training_event (Call f args) = training_api f"
| "training_event ev = False"

fun validation_api :: "'v api \<Rightarrow> bool" where
  "validation_api Model_eval = True"
| "validation_api Iter = True"
| "validation_api Next = True"
| "validation_api Model_call = True"
| "validation_api Accuracy_score = True"
| "validation_api Np_concatenate = True"
| "validation_api f = False"

fun validation_body_event :: "'v event \<Rightarrow> bool" where
  "validation_body_event (Print s) = True"
| "validation_body_event (Raise e) = True"
| "validation_body_event (Call f args) = (validation_api f \<and> f \<noteq> Model_eval)"
| "validation_body_event ev = False"

fun validation_event :: "'v event \<Rightarrow> bool" where
  "validation_event (Enter c) = True"
| "validation_event (Exit c) = True"
| "validation_event (Call Model_eval args) = True"
| "validation_event ev = validation_body_event ev"

text \<open>
  Every model call of a trace lies inside a \<^verbatim>\<open>torch.no_grad()\<close> block; the flag says
  whether the trace starts inside one.
\<close>

fun under_no_grad :: "bool \<Rightarrow> 'v event list \<Rightarrow> bool" where
  "under_no_grad inside [] = True"
| "under_no_grad inside (Enter No_grad # evs) = under_no_grad True evs"
| "under_no_grad inside (Exit No_grad # evs) = under_no_grad False evs"
| "under_no_grad inside (Call Model_call args # evs) = (inside \<and> under_no_grad inside evs)"
| "under_no_grad inside (ev # evs) = under_no_grad inside evs"

text \<open>The parameters of the model on the heap, if a model is there.\<close>

definition model_parameters :: "'v heap \<Rightarrow> ('v \<times> 'v) option" where
  "model_parameters h = map_option parameters (model h)"

text \<open>Parts of the heap that a kind of statement leaves alone.\<close>

definition rng_free :: "('v heap \<Rightarrow> 'b) \<Rightarrow> bool" where
  "rng_free f = (\<forall>h k. f (h\<lparr>rng := k\<rparr>) = f h)"

definition mode_free :: "('v heap \<Rightarrow> 'b) \<Rightarrow> bool" where
  "mode_free f = (\<forall>h m b. model h = Some m \<longrightarrow> f (h\<lparr>model := Some (set_training m b)\<rparr>) = f h)"

definition optim_free :: "('v heap \<Rightarrow> 'b) \<Rightarrow> bool" where
  "optim_free f = ((\<forall>h g. f (h\<lparr>grads := g\<rparr>) = f h) \<and>
     (\<forall>h m opt' ps. model h = Some m \<longrightarrow>
        f (h\<lparr>opt := Some opt', model := Some (set_parameters m ps)\<rparr>) = f h))"

definition build_free :: "('v heap \<Rightarrow> 'b) \<Rightarrow> bool" where
  "build_free f = ((\<forall>h m. f (h\<lparr>model := Some m\<rparr>) = f h) \<and> (\<forall>h opt'. f (h\<lparr>opt := Some opt'\<rparr>) = f h))"

fun later_event :: "'v event \<Rightarrow> bool" where
  "later_event ev = (setup_event ev \<or> training_event ev)"

fun notebook_event :: "'v event \<Rightarrow> bool" where
  "notebook_event ev = (install_event ev \<or> later_event ev)"

text \<open>The same libraries, except that every SAGEConv layer call raises.\<close>

definition env_forward_fails :: "string env" where
  "env_forward_fails = demo_env\<lparr>torch := demo_torch\<lparr>SAGEConv_forward :=
     (\<lambda>layer mfg x. Inl (Exn (OtherError ''RuntimeError'') ''shapes cannot be multiplied''))\<rparr>\<rparr>"

text \<open>Environments in which an import of the first cell fails.\<close>

definition failing_import :: "string \<Rightarrow> exn \<Rightarrow> string env" where
  "failing_import name e =
     demo_env\<lparr>py := demo_py\<lparr>import_outcome := (\<lambda>n. if n = name then Some e else None)\<rparr>\<rparr>"

definition env_no_dgl :: "string env" where
  "env_no_dgl = failing_import ''dgl'' (Exn ModuleNotFoundError ''No module named dgl'')"

definition env_no_graphbolt :: "string env" where
  "env_no_graphbolt =
     failing_import ''dgl.graphbolt'' (Exn ImportError ''cannot import name graphbolt'')"

definition env_broken_dgl :: "string env" where
  "env_broken_dgl =
     failing_import ''dgl'' (Exn (OtherError ''FileNotFoundError'') ''cannot find libgraphbolt'')"

definition env_broken_graphbolt :: "string env" where
  "env_broken_graphbolt =
     failing_import ''dgl.graphbolt'' (Exn (OtherError ''OSError'') ''undefined symbol'')"

text \<open>The stages of a pipe, from the source of the items to the last stage applied.\<close>

fun stage_names :: "'v datapipe \<Rightarrow> string list" where
  "stage_names (ItemSampler itemset batch_size shuffle) = [''ItemSampler'']"
| "stage_names (copy_to dp dev attrs) = stage_names dp @ [''copy_to'']"
| "stage_names (sample_neighbor dp gr fanouts) = stage_names dp @ [''sample_neighbor'']"
| "stage_names (fetch_feature dp fs keys) = stage_names dp @ [''fetch_feature'']"

definition demo_globals :: "string globals" where
  "demo_globals = \<lparr>graph = ''graph'', feature = ''feature'', train_set = ''train'',
     valid_set = ''valid'', test_set = ''test'', task_name = ''node_classification'',
     num_classes = ''40''\<rparr>"

text \<open>What a layer was constructed with, and the two layers of the model on the heap.\<close>

definition layer_config :: "'v SAGEConv \<Rightarrow> 'v \<times> 'v \<times> string" where
  "layer_config l = (in_feats l, out_feats l, aggregator_type l)"

definition model_config :: "'v heap \<Rightarrow> (('v \<times> 'v \<times> string) \<times> ('v \<times> 'v \<times> string)) option" where
  "model_config h = map_option (\<lambda>m. (layer_config (conv1 m), layer_config (conv2 m))) (model h)"

text \<open>
  No event of the kind \<open>Q\<close> occurs in a trace before its first event of the kind \<open>P\<close>.
\<close>

definition precedes :: "('a \<Rightarrow> bool) \<Rightarrow> ('a \<Rightarrow> bool) \<Rightarrow> 'a list \<Rightarrow> bool" where
  "precedes P Q evs = list_all (\<lambda>ev. \<not> Q ev) (takeWhile (\<lambda>ev. \<not> P ev) evs)"

fun loads_dataset :: "'v event \<Rightarrow> bool" where
  "loads_dataset (Call (BuiltinDataset_load name) args) = True"
| "loads_dataset ev = False"

fun makes_loader :: "'v event \<Rightarrow> bool" where
  "makes_loader (Call (DataLoader_new dp) args) = True"
| "makes_loader ev = False"

fun shuffles :: "'v datapipe \<Rightarrow> bool" where
  "shuffles (ItemSampler itemset batch_size shuffle) = shuffle"
| "shuffles (copy_to dp dev attrs) = shuffles dp"
| "shuffles (sample_neighbor dp gr fanouts) = shuffles dp"
| "shuffles (fetch_feature dp fs keys) = shuffles dp"

text \<open>The validation loader is the one made with \<^verbatim>\<open>shuffle=False\<close>, after the training loader.\<close>

fun makes_valid_loader :: "'v event \<Rightarrow> bool" where
  "makes_valid_loader (Call (DataLoader_new dp) args) = (\<not> shuffles dp)"
| "makes_valid_loader ev = False"

text \<open>The operations of the training loop that no earlier cell performs.\<close>

fun loop_api :: "'v api \<Rightarrow> bool" where
  "loop_api Model_train = True"
| "loop_api Model_eval = True"
| "loop_api Model_call = True"
| "loop_api F_cross_entropy = True"
| "loop_api Zero_grad = True"
| "loop_api Backward = True"
| "loop_api Opt_step = True"
| "loop_api Accuracy_score = True"
| "loop_api Np_concatenate = True"
| "loop_api f = False"

fun loop_op :: "'v event \<Rightarrow> bool" where
  "loop_op (Call f args) = loop_api f"
| "loop_op (Postfix loss acc) = True"
| "loop_op (Enter c) = True"
| "loop_op (Exit c) = True"
| "loop_op ev = False"

text \<open>The library calls of one turn of the training loop, in the order of lines 306-320.\<close>

definition step_order :: "'v api list" where
  "step_order = [Next, Model_call, F_cross_entropy, Zero_grad, Backward, Opt_step, Accuracy_score]"

text \<open>
  A program makes the library calls \<open>xs\<close>, in this order: all of them when it returns, the
  first few of them when it raises.
\<close>

definition emits :: "'v api list \<Rightarrow> ('v, 'a) prog \<Rightarrow> bool" where
  "emits xs m = (\<forall>h. prefix (api_calls (events (m h))) xs \<and>
                    (\<forall>y. result (m h) = Inr y \<longrightarrow> api_calls (events (m h)) = xs))"

text \<open>The heap of the small environment once the model and the optimizer are there.\<close>

definition demo_model :: "string Model" where
  "demo_model = \<lparr>
     conv1 = \<lparr>in_feats = ''128'', out_feats = ''64'', aggregator_type = ''mean'', weights = ''w'',
               training = True\<rparr>,
     conv2 = \<lparr>in_feats = ''64'', out_feats = ''40'', aggregator_type = ''mean'', weights = ''w'',
               training = True\<rparr>,
     h_feats = ''64''\<rparr>"

definition heap1 :: "string heap" where
  "heap1 = heap0\<lparr>rng := 3, model := Some demo_model, opt := Some ''adam''\<rparr>"

text \<open>A program prints nothing.\<close>

definition silent :: "('v, 'a) prog \<Rightarrow> bool" where
  "silent m = (\<forall>h. printed (events (m h)) = [])"

subsection \<open>Where the objects reside\<close>

text \<open>An object resides on the device of the notebook: \<^verbatim>\<open>x.device == device\<close>.\<close>

definition resides :: "'v env \<Rightarrow> 'v \<Rightarrow> bool" where
  "resides env v = (device_of (torch env) v = device)"

text \<open>
  What the notebook needs of the libraries for its objects to stay where it puts them, taken
  as a hypothesis on the environment: \<^verbatim>\<open>.to(device)\<close> and the \<^verbatim>\<open>copy_to\<close> stage give an object
  on that device; the other stages, the attributes of a minibatch, the layers, the loss and
  the optimizer step give objects on that device when all they are given resides on it.
\<close>

definition device_laws :: "'v env \<Rightarrow> bool" where
  "device_laws env =
    ((\<forall>v v'. to_device (gb env) v device = Inr v' \<longrightarrow> resides env v') \<and>
     (\<forall>ps ps'. module_to (torch env) ps device = Inr ps' \<longrightarrow>
        resides env (fst ps') \<and> resides env (snd ps')) \<and>
     (\<forall>attrs v v'. run_copy_to (gb env) device attrs v = Inr v' \<longrightarrow> resides env v') \<and>
     (\<forall>gr fanouts v v'. resides env gr \<and> resides env v \<and>
        run_sample_neighbor (gb env) gr fanouts v = Inr v' \<longrightarrow> resides env v') \<and>
     (\<forall>fs keys v v'. resides env fs \<and> resides env v \<and>
        run_fetch_feature (gb env) fs keys v = Inr v' \<longrightarrow> resides env v') \<and>
     (\<forall>v. resides env v \<longrightarrow> resides env (mb_labels (gb env) v) \<and>
        list_all (resides env) (mb_blocks (gb env) v) \<and>
        (\<forall>k x. mb_node_features (gb env) v k = Some x \<longrightarrow> resides env x)) \<and>
     (\<forall>layer mfg x y. resides env (weights layer) \<and> resides env mfg \<and> resides env x \<and>
        SAGEConv_forward (torch env) layer mfg x = Inr y \<longrightarrow> resides env y) \<and>
     (\<forall>x. resides env x \<longrightarrow> resides env (relu (torch env) x)) \<and>
     (\<forall>p l y. resides env p \<and> resides env l \<and>
        cross_entropy (torch env) p l = Inr y \<longrightarrow> resides env y) \<and>
     (\<forall>opt' ps g r. resides env (fst ps) \<and> resides env (snd ps) \<and>
        step (torch env) opt' ps g = Inr r \<longrightarrow>
        resides env (fst (snd r)) \<and> resides env (snd (snd r))))"

text \<open>The parameters of the model on the heap reside on the device.\<close>

definition placed_model :: "'v env \<Rightarrow> 'v heap \<Rightarrow> bool" where
  "placed_model env h = (case model h of None \<Rightarrow> True | Some m \<Rightarrow> list_all (resides env) (params_list m))"

text \<open>The tensors an event computes with: those given to the model, the loss and the optimizer.\<close>

fun tensor_args :: "'v event \<Rightarrow> 'v list" where
  "tensor_args (Call Model_call args) = args"
| "tensor_args (Call F_cross_entropy args) = args"
| "tensor_args (Call Backward args) = args"
| "tensor_args (Call Opt_step args) = args"
| "tensor_args ev = []"

definition resident_event :: "'v env \<Rightarrow> 'v event \<Rightarrow> bool" where
  "resident_event env ev = list_all (resides env) (tensor_args ev)"

text \<open>
  An item of a pass is a minibatch on the device or an exception; every minibatch that a
  loader yields, in every pass, resides on the device.
\<close>

abbreviation (input) resident_item :: "'v env \<Rightarrow> exn + 'v \<Rightarrow> bool" where
  "resident_item env r \<equiv> (case r of Inl e \<Rightarrow> True | Inr mb \<Rightarrow> resides env mb)"

definition resident_loader :: "'v env \<Rightarrow> 'v dataloader \<Rightarrow> bool" where
  "resident_loader env dl = (\<forall>k. list_all (resident_item env) (run_datapipe env (pipe_of dl) k))"

text \<open>
  From a heap whose model is placed, a program leaves the model placed, computes only with
  resident tensors, and returns a value with the property \<open>Q\<close>.
\<close>

definition placed :: "'v env \<Rightarrow> ('v, 'a) prog \<Rightarrow> ('a \<Rightarrow> bool) \<Rightarrow> bool" where
  "placed env m Q = (\<forall>h. placed_model env h \<longrightarrow>
     placed_model env (heap_of (m h)) \<and> list_all (resident_event env) (events (m h)) \<and>
     (\<forall>x. result (m h) = Inr x \<longrightarrow> Q x))"

subsection \<open>An environment whose objects carry their device\<close>

text \<open>
  Library objects here are a name with the device the object is on. The machine has a GPU
  and the libraries make their objects on it: the dataset with its graph and features, the
  batches of the item sampler and the new weights of a layer all start on \<open>cuda:0\<close>. Moving an
  object changes its device; every other operation gives its result on the device of what it
  was given, and a stage, a layer or the loss refuses objects that are on different devices.
\<close>

type_synonym obj = "string \<times> torch_device"

definition gpu :: torch_device where
  "gpu = Device ''cuda:0''"

definition same_device_error :: exn where
  "same_device_error =
     Exn (OtherError ''RuntimeError'') ''Expected all tensors to be on the same device''"

definition tagged_py :: "obj python" where
  "tagged_py = \<lparr>
     import_outcome = (\<lambda>name. None),
     torch_version = ''2.1.0'',
     str_of = fst,
     fmt3 = fst,
     py_int = (\<lambda>i. (if i = 64 then ''64'' else ''int'', Device ''cpu'')),
     accuracy_score = (\<lambda>labels predictions. Inr (''0.5'', Device ''cpu'')),
     concatenate = (\<lambda>xs. case xs of
         [] \<Rightarrow> Inl (Exn (OtherError ''ValueError'') ''need at least one array to concatenate'')
       | x # rest \<Rightarrow> Inr (concat (map fst xs), Device ''cpu''))\<rparr>"

definition tagged_gb :: "obj graphbolt" where
  "tagged_gb = \<lparr>
     load = (\<lambda>name. Inr (''dataset'', gpu)),
     ds_graph = (\<lambda>d. (''graph'', snd d)),
     ds_feature = (\<lambda>d. (''feature'', snd d)),
     ds_tasks = (\<lambda>d. [(''task'', snd d)]),
     task_train_set = (\<lambda>t. (''train'', snd t)),
     task_validation_set = (\<lambda>t. (''valid'', snd t)),
     task_test_set = (\<lambda>t. (''test'', snd t)),
     task_metadata = (\<lambda>t. [''name'' \<mapsto> (''node_classification'', Device ''cpu''),
                             ''num_classes'' \<mapsto> (''40'', Device ''cpu'')]),
     to_device = (\<lambda>v d. Inr (fst v, d)),
     feature_size = (\<lambda>f domain type_name name. Inr [(''128'', Device ''cpu'')]),
     item_batches = (\<lambda>itemset batch_size shuffle k.
        [Inr (fst itemset @ ''0'', snd itemset), Inr (fst itemset @ ''1'', snd itemset)]),
     run_copy_to = (\<lambda>d attrs v. Inr (fst v, d)),
     run_sample_neighbor = (\<lambda>g fanouts v.
        if snd g = snd v then Inr v else Inl same_device_error),
     run_fetch_feature = (\<lambda>f keys v.
        if snd f = snd v then Inr v else Inl same_device_error),
     mb_blocks = (\<lambda>v. [(''mfg0'', snd v), (''mfg1'', snd v)]),
     mb_node_features = (\<lambda>v. [''feat'' \<mapsto> (''x'', snd v)]),
     mb_labels = (\<lambda>v. (''y'', snd v)),
     srcdata = (\<lambda>b. [''_ID'' \<mapsto> (''tensor([0, 1])'', snd b)]),
     NID = ''_ID''\<rparr>"

definition tagged_torch :: "obj torch" where
  "tagged_torch = \<lparr>
     SAGEConv_init = (\<lambda>i out agg k. Inr (''w'', gpu)),
     SAGEConv_forward = (\<lambda>layer mfg x.
        if snd (weights layer) = snd mfg \<and> snd mfg = snd x then Inr (''h'', snd x)
        else Inl same_device_error),
     relu = (\<lambda>v. v),
     module_to = (\<lambda>ps d. Inr ((fst (fst ps), d), (fst (snd ps), d))),
     Adam = (\<lambda>ps. Inr (''adam'', Device ''cpu'')),
     cross_entropy = (\<lambda>predictions labels.
        if snd predictions = snd labels then Inr (''0.693'', snd predictions)
        else Inl same_device_error),
     zero_grad = (\<lambda>g. Inr None),
     backward = (\<lambda>loss g. Inr (Some (''grad'', snd loss))),
     step = (\<lambda>opt' ps g.
        Inr (opt', (fst (fst ps) @ ''+'', snd (fst ps)), (fst (snd ps) @ ''+'', snd (snd ps)))),
     argmax = (\<lambda>v dim. v),
     detach = (\<lambda>v. v),
     cpu = (\<lambda>v. (fst v, Device ''cpu'')),
     numpy = (\<lambda>v. v),
     item = (\<lambda>v. v),
     device_of = snd\<rparr>"

definition tagged_env :: "obj env" where
  "tagged_env = \<lparr>py = tagged_py, gb = tagged_gb, torch = tagged_torch\<rparr>"

definition tagged_heap0 :: "obj heap" where
  "tagged_heap0 = \<lparr>files = Map.empty, rng = 0, model = None, grads = None, opt = None\<rparr>"

text \<open>The globals of the task cell in this environment: graph and features are on the CPU.\<close>

definition tagged_globals :: "obj globals" where
  "tagged_globals = \<lparr>graph = (''graph'', Device ''cpu''), feature = (''feature'', Device ''cpu''),
     train_set = (''train'', gpu), valid_set = (''valid'', gpu), test_set = (''test'', gpu),
     task_name = (''node_classification'', Device ''cpu''),
     num_classes = (''40'', Device ''cpu'')\<rparr>"

section \<open>Properties\<close>

subsection \<open>Traces and sequencing\<close>

lemma out_simps [simp]:
  "result (r, h, t) = r" "heap_of (r, h, t) = h" "events (r, h, t) = t"
  by (simp_all add: result_def heap_of_def events_def)

lemma printed_append [simp]: "printed (xs @ ys) = printed xs @ printed ys"
  by (induction xs rule: printed.induct) simp_all

lemma api_calls_append [simp]: "api_calls (xs @ ys) = api_calls xs @ api_calls ys"
  by (induction xs rule: api_calls.induct) simp_all

lemma raised_append [simp]: "raised (xs @ ys) = raised xs @ raised ys"
  by (induction xs rule: raised.induct) simp_all

lemma caught_append [simp]: "caught (xs @ ys) = caught xs @ caught ys"
  by (induction xs rule: caught.induct) simp_all

lemma andThen_Inl: "m h = (Inl e, h', t) \<Longrightarrow> andThen m f h = (Inl e, h', t)"
  by (simp add: andThen_def)

lemma andThen_Inr:
  "m h = (Inr x, h', t) \<Longrightarrow>
   andThen m f h = (result (f x h'), heap_of (f x h'), t @ events (f x h'))"
  by (simp add: andThen_def result_def heap_of_def events_def split: prod.splits)

lemma prog_cases:
  obtains (fails) e h' t where "m h = (Inl e, h', t)"
        | (returns) x h' t where "m h = (Inr x, h', t)"
  by (metis prod_cases3 sum.exhaust_sel)

subsection \<open>Rules for the combinators\<close>

named_theorems sat_intros

lemma satD:
  assumes "sat f E m"
  shows "f (heap_of (m h)) = f h" and "list_all E (events (m h))"
    and "raised (events (m h)) = caught (events (m h)) @ uncaught (result (m h))"
  using assms by (simp_all add: sat_def)

lemma sat_mono: "sat f E m \<Longrightarrow> (\<And>ev. E ev \<Longrightarrow> E' ev) \<Longrightarrow> sat f E' m"
  by (auto simp: sat_def list_all_iff)

lemma sat_ret [sat_intros]: "sat f E (ret x)"
  by (simp add: sat_def ret_def)

lemma sat_raise [sat_intros]: "E (Raise e) \<Longrightarrow> sat f E (raise e)"
  by (simp add: sat_def raise_def)

lemma sat_emit [sat_intros]: "E ev \<Longrightarrow> caught [ev] = [] \<Longrightarrow> raised [ev] = [] \<Longrightarrow> sat f E (emit ev)"
  by (simp add: sat_def emit_def)

lemma sat_getH [sat_intros]: "sat f E (getH g)"
  by (simp add: sat_def getH_def)

lemma sat_modify [sat_intros]: "(\<And>h. f (g h) = f h) \<Longrightarrow> sat f E (modify g)"
  by (simp add: sat_def modify_def)

lemma sat_fresh [sat_intros]: "(\<And>h. f (h\<lparr>rng := Suc (rng h)\<rparr>) = f h) \<Longrightarrow> sat f E fresh"
  by (simp add: sat_def fresh_def)

lemma sat_andThen [sat_intros]:
  assumes "sat f E m" and "\<And>x. sat f E (g x)"
  shows "sat f E (andThen m g)"
  unfolding sat_def
proof (intro allI)
  fix h
  show "f (heap_of (andThen m g h)) = f h \<and> list_all E (events (andThen m g h)) \<and>
        raised (events (andThen m g h)) =
          caught (events (andThen m g h)) @ uncaught (result (andThen m g h))"
  proof (cases rule: prog_cases [of m h])
    case (fails e h' t)
    with satD [OF assms(1), of h] show ?thesis
      by (simp add: andThen_Inl)
  next
    case (returns x h' t)
    with satD [OF assms(1), of h] satD [OF assms(2), of x h'] show ?thesis
      by (simp add: andThen_Inr)
  qed
qed

lemma sat_seq [sat_intros]: "sat f E m \<Longrightarrow> sat f E n \<Longrightarrow> sat f E (seq m n)"
  by (simp add: seq_def sat_andThen)

lemma sat_lift [sat_intros]: "(\<And>e. E (Raise e)) \<Longrightarrow> sat f E (lift r)"
  by (cases r) (simp_all add: lift_def sat_ret sat_raise)

lemma sat_call [sat_intros]:
  "E (Call a args) \<Longrightarrow> (\<And>e. E (Raise e)) \<Longrightarrow> sat f E (call a args r)"
  by (simp add: call_def sat_seq sat_emit sat_lift)

lemma sat_import [sat_intros]:
  "E (Import name) \<Longrightarrow> (\<And>e. E (Raise e)) \<Longrightarrow> sat f E (import_stmt env name)"
  by (simp add: import_stmt_def sat_emit sat_raise split: option.split)

lemma sat_with_block [sat_intros]:
  assumes "E (Enter c)" and "E (Exit c)" and "sat f E body"
  shows "sat f E (with_block c body)"
  unfolding sat_def
proof (intro allI)
  fix h
  obtain r h' t where b: "body h = (r, h', t)"
    by (cases "body h") auto
  with satD [OF assms(3), of h] assms(1,2)
  show "f (heap_of (with_block c body h)) = f h \<and> list_all E (events (with_block c body h)) \<and>
        raised (events (with_block c body h)) =
          caught (events (with_block c body h)) @ uncaught (result (with_block c body h))"
    by (simp add: with_block_def)
qed

lemma sat_try_except [sat_intros]:
  assumes "sat f E body" and "\<And>e. sat f E (handler e)" and "\<And>e. is_ImportError e \<Longrightarrow> E (Caught e)"
  shows "sat f E (try_except_ImportError body handler)"
  unfolding sat_def
proof (intro allI)
  fix h
  show "f (heap_of (try_except_ImportError body handler h)) = f h \<and>
        list_all E (events (try_except_ImportError body handler h)) \<and>
        raised (events (try_except_ImportError body handler h)) =
          caught (events (try_except_ImportError body handler h)) @
          uncaught (result (try_except_ImportError body handler h))"
  proof (cases rule: prog_cases [of body h])
    case (fails e h' t)
    obtain r h'' t' where hd: "handler e h' = (r, h'', t')"
      by (cases "handler e h'") auto
    with fails satD [OF assms(1), of h] satD [OF assms(2), of e h'] assms(3) [of e]
    show ?thesis
      by (simp add: try_except_ImportError_def)
  next
    case (returns x h' t)
    with satD [OF assms(1), of h] show ?thesis
      by (simp add: try_except_ImportError_def)
  qed
qed

lemma sat_if [sat_intros]:
  "(c \<Longrightarrow> sat f E a) \<Longrightarrow> (\<not> c \<Longrightarrow> sat f E b) \<Longrightarrow> sat f E (if c then a else b)"
  by simp

lemma sat_case_list [sat_intros]:
  "sat f E a \<Longrightarrow> (\<And>x xs. sat f E (b x xs)) \<Longrightarrow> sat f E (case l of [] \<Rightarrow> a | x # xs \<Rightarrow> b x xs)"
  by (cases l) simp_all

lemma sat_case_prod [sat_intros]:
  "(\<And>a b. sat f E (g a b)) \<Longrightarrow> sat f E (case p of (a, b) \<Rightarrow> g a b)"
  by (cases p) simp

lemma sat_get_model [sat_intros]: "(\<And>e. E (Raise e)) \<Longrightarrow> sat f E get_model"
  by (auto simp: get_model_def intro!: sat_andThen sat_getH sat_raise sat_ret split: option.split)

lemma sat_get_opt [sat_intros]: "(\<And>e. E (Raise e)) \<Longrightarrow> sat f E get_opt"
  by (auto simp: get_opt_def intro!: sat_andThen sat_getH sat_raise sat_ret split: option.split)

subsection \<open>The parts of the notebook\<close>

lemma files_free [simp]:
  "rng_free files" "mode_free files" "optim_free files" "build_free files"
  by (simp_all add: rng_free_def mode_free_def optim_free_def build_free_def)

lemma sat_cell_install: "sat f install_event (cell_install env)"
  unfolding cell_install_def by (intro sat_intros) simp_all

lemma sat_cell_dataset: "sat f setup_event (cell_dataset env installed)"
  unfolding cell_dataset_def by (intro sat_intros) simp_all

lemma sat_cell_task: "sat f setup_event (cell_task env dataset)"
  unfolding cell_task_def task0_def by (intro sat_intros) simp_all

lemma sat_create_dataloader: "sat f setup_event (create_dataloader g itemset shuffle)"
  unfolding create_dataloader_def Let_def by (intro sat_intros) simp_all

lemma sat_iter_loader:
  "rng_free f \<Longrightarrow> E (Call Iter []) \<Longrightarrow> sat f E (iter_loader env dl)"
  unfolding iter_loader_def by (intro sat_intros) (simp_all add: rng_free_def)

lemma sat_cell_preview: "rng_free f \<Longrightarrow> sat f setup_event (cell_preview env g)"
  unfolding cell_preview_def
  by (intro sat_intros sat_create_dataloader sat_iter_loader) simp_all

lemma sat_cell_input_nodes: "sat f setup_event (cell_input_nodes env data)"
  unfolding cell_input_nodes_def Let_def by (intro sat_intros) simp_all

lemma sat_make_SAGEConv: "rng_free f \<Longrightarrow> sat f setup_event (make_SAGEConv env i out agg)"
  unfolding make_SAGEConv_def by (intro sat_intros) (simp_all add: rng_free_def)

lemma sat_Model_init: "rng_free f \<Longrightarrow> sat f setup_event (Model_init env i hf nc)"
  unfolding Model_init_def by (intro sat_intros sat_make_SAGEConv)

lemma sat_Model_to: "sat f setup_event (Model_to env m device)"
  unfolding Model_to_def by (intro sat_intros) simp_all

lemma sat_cell_model: "rng_free f \<Longrightarrow> build_free f \<Longrightarrow> sat f setup_event (cell_model env g)"
  unfolding cell_model_def
  by (intro sat_intros sat_Model_init sat_Model_to) (simp_all add: build_free_def)

lemma sat_cell_opt: "build_free f \<Longrightarrow> sat f setup_event (cell_opt env)"
  unfolding cell_opt_def by (intro sat_intros) (simp_all add: build_free_def)

lemma sat_cell_loaders: "sat f setup_event (cell_loaders env g)"
  unfolding cell_loaders_def by (intro sat_intros sat_create_dataloader) simp_all

lemma sat_model_call:
  "(\<And>args. E (Call Model_call args)) \<Longrightarrow> (\<And>e. E (Raise e)) \<Longrightarrow> sat f E (model_call env mfgs x)"
  unfolding model_call_def by (intro sat_intros) simp_all

text \<open>
  The statements that write the heap after reading it: the part \<open>f\<close> need only be kept
  on the heaps they can write.
\<close>

lemma sat_set_mode:
  assumes "mode_free f" and "E (Call a [])" and "E (Raise (Exn NameError ''model''))"
  shows "sat f E (andThen get_model (\<lambda>m.
           seq (emit (Call a [])) (modify (\<lambda>h. h\<lparr>model := Some (set_training m b)\<rparr>))))"
  using assms
  by (auto simp: sat_def mode_free_def get_model_def andThen_def getH_def seq_def emit_def
      modify_def raise_def ret_def split: option.splits)

lemma sat_model_train: "mode_free f \<Longrightarrow> sat f training_event model_train"
  unfolding model_train_def by (rule sat_set_mode) simp_all

lemma sat_model_eval: "mode_free f \<Longrightarrow> sat f validation_event model_eval"
  unfolding model_eval_def by (rule sat_set_mode) simp_all

lemma sat_opt_zero_grad: "optim_free f \<Longrightarrow> sat f training_event (opt_zero_grad env)"
  unfolding opt_zero_grad_def by (intro sat_intros) (simp_all add: optim_free_def)

lemma sat_loss_backward: "optim_free f \<Longrightarrow> sat f training_event (loss_backward env loss)"
  unfolding loss_backward_def by (intro sat_intros) (simp_all add: optim_free_def)

lemma sat_opt_step: "optim_free f \<Longrightarrow> sat f training_event (opt_step env)"
  by (auto simp: sat_def optim_free_def opt_step_def get_model_def get_opt_def andThen_def
      getH_def seq_def emit_def modify_def raise_def ret_def call_def lift_def
      split: option.splits sum.splits)

lemma sat_train_step: "optim_free f \<Longrightarrow> sat f training_event (train_step env data)"
  unfolding train_step_def Let_def
  by (intro sat_intros sat_model_call sat_opt_zero_grad sat_loss_backward sat_opt_step) simp_all

lemma sat_train_iteration: "optim_free f \<Longrightarrow> sat f training_event (train_iteration env r)"
  unfolding train_iteration_def by (intro sat_intros sat_train_step) simp_all

lemma sat_train_loop: "optim_free f \<Longrightarrow> sat f training_event (train_loop env items)"
  by (induction items) (simp_all add: sat_ret sat_seq sat_train_iteration)

lemma sat_train_phase:
  "rng_free f \<Longrightarrow> mode_free f \<Longrightarrow> optim_free f \<Longrightarrow> sat f training_event (train_phase env dl)"
  unfolding train_phase_def
  by (intro sat_intros sat_model_train sat_iter_loader sat_train_loop) simp_all

lemma sat_valid_loop: "sat f validation_body_event (valid_loop env items predictions labels)"
proof (induction items arbitrary: predictions labels)
  case Nil
  show ?case by (simp add: sat_ret)
next
  case (Cons r rest)
  show ?case
    unfolding valid_loop.simps Let_def
    by (intro sat_intros sat_model_call Cons.IH) simp_all
qed

lemma sat_valid_body: "rng_free f \<Longrightarrow> sat f validation_body_event (valid_body env dl epoch)"
  unfolding valid_body_def valid_report_def
  by (intro sat_intros sat_iter_loader sat_valid_loop) simp_all

lemma validation_body_is_validation: "validation_body_event ev \<Longrightarrow> validation_event ev"
proof (cases ev)
  case (Call a args)
  assume "validation_body_event ev"
  with Call show ?thesis by (cases a) simp_all
qed simp_all

lemma sat_valid_phase:
  "rng_free f \<Longrightarrow> mode_free f \<Longrightarrow> sat f validation_event (valid_phase env dl epoch)"
  unfolding valid_phase_def
  by (intro sat_intros sat_model_eval
      sat_mono [OF sat_valid_body validation_body_is_validation]) simp_all

lemma validation_is_training: "validation_event ev \<Longrightarrow> training_event ev"
proof (cases ev)
  case (Call a args)
  assume "validation_event ev"
  with Call show ?thesis by (cases a) simp_all
qed simp_all

lemma sat_run_epoch:
  "rng_free f \<Longrightarrow> mode_free f \<Longrightarrow> optim_free f \<Longrightarrow> sat f training_event (run_epoch env tdl vdl epoch)"
  unfolding run_epoch_def
  by (intro sat_intros sat_train_phase sat_mono [OF sat_valid_phase validation_is_training])

lemma sat_epochs:
  "rng_free f \<Longrightarrow> mode_free f \<Longrightarrow> optim_free f \<Longrightarrow> sat f training_event (epochs env tdl vdl es)"
  by (induction es) (simp_all add: sat_ret sat_seq sat_run_epoch)

lemma sat_cell_train:
  "rng_free f \<Longrightarrow> mode_free f \<Longrightarrow> optim_free f \<Longrightarrow> sat f training_event (cell_train env tdl vdl)"
  unfolding cell_train_def by (intro sat_intros sat_epochs) simp_all

lemma sat_after_install: "sat files later_event (after_install env installed)"
  unfolding after_install_def preview_cells_def training_cells_def
  by (intro sat_intros
      sat_mono [OF sat_cell_dataset] sat_mono [OF sat_cell_task]
      sat_mono [OF sat_cell_preview] sat_mono [OF sat_cell_input_nodes]
      sat_mono [OF sat_cell_model] sat_mono [OF sat_cell_opt] sat_mono [OF sat_cell_loaders]
      sat_mono [OF sat_cell_train]) simp_all

lemma sat_notebook: "sat files notebook_event (notebook env)"
  unfolding notebook_def
  by (intro sat_intros sat_mono [OF sat_cell_install] sat_mono [OF sat_after_install]) simp_all

lemma events_andThen:
  "events (andThen m f h) =
     events (m h) @ (case result (m h) of Inl e \<Rightarrow> [] | Inr x \<Rightarrow> events (f x (heap_of (m h))))"
  by (cases rule: prog_cases [of m h]) (simp_all add: andThen_Inl andThen_Inr)

lemma result_andThen:
  "result (andThen m f h) =
     (case result (m h) of Inl e \<Rightarrow> Inl e | Inr x \<Rightarrow> result (f x (heap_of (m h))))"
  by (cases rule: prog_cases [of m h]) (simp_all add: andThen_Inl andThen_Inr)

lemma heap_andThen:
  "heap_of (andThen m f h) =
     (case result (m h) of Inl e \<Rightarrow> heap_of (m h) | Inr x \<Rightarrow> heap_of (f x (heap_of (m h))))"
  by (cases rule: prog_cases [of m h]) (simp_all add: andThen_Inl andThen_Inr)

lemma caught_none: "list_all E t \<Longrightarrow> (\<And>e. \<not> E (Caught e)) \<Longrightarrow> caught t = []"
  by (induction t rule: caught.induct) auto

lemma caught_after_install: "caught (events (after_install env installed h)) = []"
  by (rule caught_none [OF satD(2) [OF sat_after_install]]) simp

lemma caught_install: "list_all is_ImportError (caught (events (cell_install env h)))"
proof -
  have "list_all install_event t \<Longrightarrow> list_all is_ImportError (caught t)" for t :: "'v event list"
    by (induction t rule: caught.induct) auto
  then show ?thesis
    using satD(2) [OF sat_cell_install] by blast
qed

lemma raised_iff: "e \<in> set (raised t) \<longleftrightarrow> Raise e \<in> set t"
  by (induction t rule: raised.induct) auto

lemma events_with_block: "events (with_block c body h) = Enter c # events (body h) @ [Exit c]"
  by (simp add: with_block_def events_def split: prod.splits)

lemma result_with_block: "result (with_block c body h) = result (body h)"
  by (simp add: with_block_def result_def split: prod.splits)

lemma heap_with_block: "heap_of (with_block c body h) = heap_of (body h)"
  by (simp add: with_block_def heap_of_def split: prod.splits)

subsection \<open>Files\<close>


subsection \<open>Exceptions outside the import guard\<close>

text \<open>
  C6. Outside the single import guard, no exception is caught anywhere in the notebook: any
  error raised during dataset loading, data-loader iteration, the model forward pass, the
  optimizer step, or metric computation propagates unhandled to the notebook environment.
  In every run, the exceptions raised are those the guard of the first cell caught, all of
  them ImportErrors, followed by the one the run ends with, if it ends with one. In the
  cells after the first nothing is caught at all: an exception raised there, by whichever
  library call, is the result of the run.
\<close>

theorem C6_exceptions_propagate:
  "raised (events (notebook env h)) =
     caught (events (notebook env h)) @ uncaught (result (notebook env h)) \<and>
   caught (events (notebook env h)) = caught (events (cell_install env h)) \<and>
   list_all is_ImportError (caught (events (notebook env h))) \<and>
   raised (events (after_install env installed h')) =
     uncaught (result (after_install env installed h')) \<and>
   (Raise e \<in> set (events (after_install env installed h')) \<longrightarrow>
      result (after_install env installed h') = Inl e)"
proof -
  have c: "caught (events (notebook env h)) = caught (events (cell_install env h))"
    by (simp add: notebook_def events_andThen caught_after_install split: sum.split)
  have r: "raised (events (after_install env installed h')) =
          uncaught (result (after_install env installed h'))"
    using satD(3) [OF sat_after_install, of env installed h']
    by (simp add: caught_after_install)
  have "result (after_install env installed h') = Inl e"
    if "Raise e \<in> set (events (after_install env installed h'))"
  proof -
    from that have "e \<in> set (uncaught (result (after_install env installed h')))"
      by (simp add: raised_iff [symmetric] r)
    then show ?thesis
      by (cases "result (after_install env installed h')") simp_all
  qed
  with c r caught_install [of env h] satD(3) [OF sat_notebook, of env h] show ?thesis
    by simp
qed

text \<open>With a layer call that raises, the first training step ends the run with its error.\<close>

theorem C6_witness:
  "Raise (Exn (OtherError ''RuntimeError'') ''shapes cannot be multiplied'')
     \<in> set (events (after_install env_forward_fails True heap0)) \<and>
   result (after_install env_forward_fails True heap0) =
     Inl (Exn (OtherError ''RuntimeError'') ''shapes cannot be multiplied'')"
proof -
  have "Raise (Exn (OtherError ''RuntimeError'') ''shapes cannot be multiplied'')
     \<in> set (events (after_install env_forward_fails True heap0))"
    by code_simp
  with C6_exceptions_propagate [of env_forward_fails heap0 True heap0
      "Exn (OtherError ''RuntimeError'') ''shapes cannot be multiplied''"]
  show ?thesis by simp
qed

subsection \<open>Validation\<close>

lemma parameters_free [simp]: "rng_free model_parameters" "mode_free model_parameters"
  by (simp_all add: rng_free_def mode_free_def model_parameters_def set_training_def
      parameters_def)

lemma under_no_grad_outside:
  "list_all validation_body_event t \<Longrightarrow> under_no_grad True (t @ u) = under_no_grad True u"
proof (induction t)
  case (Cons ev t)
  then show ?case
  proof (cases ev)
    case (Call a args)
    with Cons show ?thesis by (cases a) simp_all
  qed simp_all
qed simp

lemma events_model_eval:
  "events (model_eval h) =
     (case model h of None \<Rightarrow> [Raise (Exn NameError ''model'')] | Some m \<Rightarrow> [Call Model_eval []])"
  by (simp add: model_eval_def get_model_def andThen_def getH_def seq_def emit_def modify_def
      raise_def ret_def split: option.splits)

lemma no_grad_valid_phase: "under_no_grad False (events (valid_phase env dl epoch h))"
proof -
  have "list_all validation_body_event (events (valid_body env dl epoch h'))" for h'
    by (rule satD(2) [OF sat_valid_body [of files]]) simp
  then have "under_no_grad True (events (valid_body env dl epoch h') @ [Exit No_grad, Exit Tqdm])" for h'
    by (simp add: under_no_grad_outside)
  then show ?thesis
    by (simp add: valid_phase_def seq_def events_andThen events_with_block events_model_eval
        split: sum.split option.split)
qed

text \<open>
  C9. The validation phase of each epoch never modifies the model's parameters: it runs
  under \<^verbatim>\<open>torch.no_grad()\<close> and calls neither \<^verbatim>\<open>opt.zero_grad\<close> nor \<^verbatim>\<open>opt.step\<close>,
  so after validation every model parameter equals its value after the last training step
  of that epoch. From any heap and however the validation ends, the parameters of the model
  are those it started with; its events are validation events, none of them a call of the
  optimizer; every model call lies inside the no_grad block; and the parameters after an
  epoch are those the training phase of that epoch left.
\<close>

theorem C9_validation_keeps_parameters:
  "model_parameters (heap_of (valid_phase env valid_dataloader epoch h)) = model_parameters h \<and>
   list_all validation_event (events (valid_phase env valid_dataloader epoch h)) \<and>
   Zero_grad \<notin> set (api_calls (events (valid_phase env valid_dataloader epoch h))) \<and>
   Opt_step \<notin> set (api_calls (events (valid_phase env valid_dataloader epoch h))) \<and>
   under_no_grad False (events (valid_phase env valid_dataloader epoch h)) \<and>
   model_parameters (heap_of (run_epoch env train_dataloader valid_dataloader epoch h)) =
     model_parameters (heap_of (train_phase env train_dataloader h))"
proof -
  note v = satD(1,2) [OF sat_valid_phase [of model_parameters], OF parameters_free]
  have calls: "list_all validation_event t \<Longrightarrow>
      Zero_grad \<notin> set (api_calls t) \<and> Opt_step \<notin> set (api_calls t)" for t :: "'v event list"
  proof (induction t rule: api_calls.induct)
    case (2 f args evs)
    then show ?case by (cases f) simp_all
  qed simp_all
  have "model_parameters (heap_of (run_epoch env train_dataloader valid_dataloader epoch h)) =
     model_parameters (heap_of (train_phase env train_dataloader h))"
    by (simp add: run_epoch_def seq_def heap_andThen v(1) split: sum.split)
  with v [of env valid_dataloader epoch h] calls [OF v(2), of env valid_dataloader epoch h]
    no_grad_valid_phase [of env valid_dataloader epoch h]
  show ?thesis by simp
qed

subsection \<open>The import guard\<close>

lemmas run_defs =
  seq_def andThen_def import_stmt_def emit_def ret_def raise_def lift_def call_def
  try_except_ImportError_def

text \<open>
  C2. If importing the external graph-learning library (dgl or dgl.graphbolt) fails with an
  ImportError, the install/import cell prints the error message followed by "DGL not found!"
  and execution of that cell completes without re-raising; if the imports succeed, it
  prints "DGL installed!" instead. The cell reaches the guard when its three plain imports
  went through.
\<close>

theorem C2_import_guard:
  assumes "import_outcome (py env) ''os'' = None"
    and "import_outcome (py env) ''torch'' = None"
    and "import_outcome (py env) ''numpy'' = None"
  shows "(import_outcome (py env) ''dgl'' = Some e \<and> is_ImportError e \<longrightarrow>
            result (cell_install env h) = Inr False \<and>
            printed (events (cell_install env h)) = [message e, ''DGL not found!'']) \<and>
         (import_outcome (py env) ''dgl'' = None \<and>
          import_outcome (py env) ''dgl.graphbolt'' = Some e \<and> is_ImportError e \<longrightarrow>
            result (cell_install env h) = Inr False \<and>
            printed (events (cell_install env h)) = [message e, ''DGL not found!'']) \<and>
         (import_outcome (py env) ''dgl'' = None \<and>
          import_outcome (py env) ''dgl.graphbolt'' = None \<longrightarrow>
            result (cell_install env h) = Inr True \<and>
            printed (events (cell_install env h)) = [''DGL installed!''])"
  using assms by (simp add: cell_install_def run_defs)

text \<open>Without dgl, without dgl.graphbolt, and with both.\<close>

theorem C2_witness:
  "result (cell_install env_no_dgl heap0) = Inr False \<and>
   printed (events (cell_install env_no_dgl heap0)) =
     [''No module named dgl'', ''DGL not found!''] \<and>
   result (cell_install env_no_graphbolt heap0) = Inr False \<and>
   printed (events (cell_install env_no_graphbolt heap0)) =
     [''cannot import name graphbolt'', ''DGL not found!''] \<and>
   result (cell_install demo_env heap0) = Inr True \<and>
   printed (events (cell_install demo_env heap0)) = [''DGL installed!'']"
  using C2_import_guard [of env_no_dgl "Exn ModuleNotFoundError ''No module named dgl''" heap0]
    C2_import_guard [of env_no_graphbolt "Exn ImportError ''cannot import name graphbolt''" heap0]
    C2_import_guard [of demo_env "Exn ImportError ''none''" heap0]
  by (simp add: env_no_dgl_def env_no_graphbolt_def failing_import_def demo_env_def demo_py_def)



subsection \<open>The data loader\<close>

lemma bindE_Inr_iff: "bindE r f = Inr y \<longleftrightarrow> (\<exists>x. r = Inr x \<and> f x = Inr y)"
  by (cases r) (simp_all add: bindE_def)

lemma result_create_dataloader:
  "result (create_dataloader g itemset shuffle h) =
     Inr (DataLoader
       (fetch_feature
         (sample_neighbor
           (copy_to (ItemSampler itemset 1024 shuffle) device [''seeds''])
           (graph g) [4, 4])
         (feature g) [''feat'']))"
  by (simp add: create_dataloader_def Let_def seq_def andThen_def emit_def ret_def)



subsection \<open>The model\<close>

lemma andThen_returns:
  assumes "result (andThen m f h) = Inr y"
  obtains x where "result (m h) = Inr x"
    and "result (f x (heap_of (m h))) = Inr y"
    and "heap_of (andThen m f h) = heap_of (f x (heap_of (m h)))"
    and "events (andThen m f h) = events (m h) @ events (f x (heap_of (m h)))"
  using assms
  by (cases rule: prog_cases [of m h]) (simp_all add: andThen_Inl andThen_Inr)

lemma seq_returns:
  assumes "result (seq m n h) = Inr y"
  obtains x where "result (m h) = Inr x"
    and "result (n (heap_of (m h))) = Inr y"
    and "heap_of (seq m n h) = heap_of (n (heap_of (m h)))"
    and "events (seq m n h) = events (m h) @ events (n (heap_of (m h)))"
  using assms unfolding seq_def by (rule andThen_returns)

lemma result_ret [simp]: "result (ret x h) = Inr x" and heap_ret [simp]: "heap_of (ret x h) = h"
  and events_ret [simp]: "events (ret x h) = []"
  by (simp_all add: ret_def)

lemma result_modify [simp]: "result (modify f h) = Inr ()"
  and heap_modify [simp]: "heap_of (modify f h) = f h"
  and events_modify [simp]: "events (modify f h) = []"
  by (simp_all add: modify_def)

lemma forward_pair:
  "forward env m (mfg0 # mfg1 # rest) x =
     bindE (SAGEConv_forward (torch env) (conv1 m) mfg0 x)
       (\<lambda>h. SAGEConv_forward (torch env) (conv2 m) mfg1 (relu (torch env) h))"
  by (simp add: forward_def index_list_def bindE_def Let_def split: sum.split)

lemma make_SAGEConv_returns:
  assumes "result (make_SAGEConv env i out agg h) = Inr l"
  shows "layer_config l = (i, out, agg)"
  using assms unfolding make_SAGEConv_def
  by (elim andThen_returns) (auto simp: layer_config_def)

lemma Model_init_returns:
  assumes "result (Model_init env i hf nc h) = Inr m"
  shows "layer_config (conv1 m) = (i, hf, ''mean'') \<and> layer_config (conv2 m) = (hf, nc, ''mean'')"
  using assms unfolding Model_init_def
  by (elim andThen_returns) (auto dest: make_SAGEConv_returns)

lemma Model_to_returns:
  assumes "result (Model_to env m d h) = Inr m'"
  shows "layer_config (conv1 m') = layer_config (conv1 m) \<and>
         layer_config (conv2 m') = layer_config (conv2 m)"
  using assms unfolding Model_to_def
  by (elim andThen_returns) (auto simp: layer_config_def set_parameters_def)

lemma cell_model_returns:
  assumes "result (cell_model env g h) = Inr ()"
  shows "\<exists>m in_size. model (heap_of (cell_model env g h)) = Some m \<and>
           layer_config (conv1 m) = (in_size, py_int (py env) 64, ''mean'') \<and>
           layer_config (conv2 m) = (py_int (py env) 64, num_classes g, ''mean'')"
  using assms unfolding cell_model_def
  apply (elim andThen_returns seq_returns)
  apply (auto dest!: Model_init_returns Model_to_returns)
  done


lemma result_lift [simp]: "result (lift r h) = r" and heap_lift [simp]: "heap_of (lift r h) = h"
  by (cases r; simp add: lift_def raise_def ret_def)+

lemma result_call [simp]: "result (call a args r h) = r"
  and heap_call [simp]: "heap_of (call a args r h) = h"
  by (cases r; simp add: call_def seq_def andThen_def emit_def lift_def raise_def ret_def)+

lemma cell_task_returns:
  assumes "result (cell_task env dataset h) = Inr g"
  shows "\<exists>t. index_list (ds_tasks (gb env) dataset) 0 = Inr t \<and>
           lookup (task_metadata (gb env) t) ''name'' = Inr (task_name g) \<and>
           lookup (task_metadata (gb env) t) ''num_classes'' = Inr (num_classes g) \<and>
           to_device (gb env) (ds_graph (gb env) dataset) device = Inr (graph g) \<and>
           to_device (gb env) (ds_feature (gb env) dataset) device = Inr (feature g) \<and>
           train_set g = task_train_set (gb env) t \<and>
           valid_set g = task_validation_set (gb env) t \<and>
           test_set g = task_test_set (gb env) t"
  using assms unfolding cell_task_def task0_def
  by (elim andThen_returns seq_returns) auto

lemma config_free [simp]:
  "rng_free model_config" "mode_free model_config" "optim_free model_config"
  by (simp_all add: rng_free_def mode_free_def optim_free_def model_config_def layer_config_def
      set_training_def set_parameters_def)

text \<open>
  C7. The trained model is a two-layer GraphSAGE node classifier: for every pair of message
  flow graphs mfgs and input feature tensor x, \<^verbatim>\<open>Model.forward(mfgs, x)\<close> equals conv2 applied
  to mfgs[1] and relu(conv1(mfgs[0], x)), where both SAGEConv layers use mean aggregation
  and the second layer's output dimension is the task's number of classes. The constructor
  builds the two layers so; the model that the model cell puts on the heap has 64 hidden
  features and as many outputs as the \<^verbatim>\<open>num_classes\<close> of the metadata of the first task;
  and training changes nothing of what the layers were constructed with.
\<close>

theorem C7_two_layer_GraphSAGE:
  "forward env m (mfg0 # mfg1 # rest) x =
     bindE (SAGEConv_forward (torch env) (conv1 m) mfg0 x)
       (\<lambda>h. SAGEConv_forward (torch env) (conv2 m) mfg1 (relu (torch env) h)) \<and>
   (\<forall>m'. result (Model_init env in_feats' h_feats' num_classes' h) = Inr m' \<longrightarrow>
      layer_config (conv1 m') = (in_feats', h_feats', ''mean'') \<and>
      layer_config (conv2 m') = (h_feats', num_classes', ''mean'')) \<and>
   (result (cell_model env g h) = Inr () \<longrightarrow>
      (\<exists>m' in_size. model (heap_of (cell_model env g h)) = Some m' \<and>
         layer_config (conv1 m') = (in_size, py_int (py env) 64, ''mean'') \<and>
         layer_config (conv2 m') = (py_int (py env) 64, num_classes g, ''mean''))) \<and>
   (\<forall>g'. result (cell_task env dataset h) = Inr g' \<longrightarrow>
      (\<exists>t. index_list (ds_tasks (gb env) dataset) 0 = Inr t \<and>
         lookup (task_metadata (gb env) t) ''num_classes'' = Inr (num_classes g'))) \<and>
   model_config (heap_of (cell_train env train_dataloader valid_dataloader h)) = model_config h"
proof -
  have "\<exists>t. index_list (ds_tasks (gb env) dataset) 0 = Inr t \<and>
         lookup (task_metadata (gb env) t) ''num_classes'' = Inr (num_classes g')"
    if "result (cell_task env dataset h) = Inr g'" for g'
    using cell_task_returns [OF that] by blast
  moreover have "model_config (heap_of (cell_train env train_dataloader valid_dataloader h)) = model_config h"
    by (rule satD(1) [OF sat_cell_train]) simp_all
  ultimately show ?thesis
    using forward_pair [of env m mfg0 mfg1 rest x] Model_init_returns [of env in_feats' h_feats' num_classes' h]
      cell_model_returns [of env g h]
    by blast
qed

text \<open>On the small environment: 128 input features, 40 classes.\<close>

theorem C7_witness:
  "forward demo_env
     \<lparr>conv1 = \<lparr>in_feats = ''128'', out_feats = ''64'', aggregator_type = ''mean'', weights = ''w'',
                training = True\<rparr>,
      conv2 = \<lparr>in_feats = ''64'', out_feats = ''40'', aggregator_type = ''mean'', weights = ''w'',
                training = True\<rparr>,
      h_feats = ''64''\<rparr> [''mfg0'', ''mfg1''] ''x'' = Inr ''h'' \<and>
   (\<exists>m. result (Model_init demo_env ''128'' ''64'' ''40'' heap0) = Inr m \<and>
      layer_config (conv1 m) = (''128'', ''64'', ''mean'') \<and>
      layer_config (conv2 m) = (''64'', ''40'', ''mean'')) \<and>
   result (cell_model demo_env demo_globals heap0) = Inr () \<and>
   (\<exists>m in_size. model (heap_of (cell_model demo_env demo_globals heap0)) = Some m \<and>
      layer_config (conv1 m) = (in_size, ''64'', ''mean'') \<and>
      layer_config (conv2 m) = (''64'', ''40'', ''mean'')) \<and>
   (\<exists>g. result (cell_task demo_env ''dataset'' heap0) = Inr g \<and> num_classes g = ''40'' \<and>
      lookup (task_metadata (gb demo_env) ''task'') ''num_classes'' = Inr (num_classes g))"
proof -
  let ?m = "\<lparr>conv1 = \<lparr>in_feats = ''128'', out_feats = ''64'', aggregator_type = ''mean'',
                weights = ''w'', training = True\<rparr>,
      conv2 = \<lparr>in_feats = ''64'', out_feats = ''40'', aggregator_type = ''mean'', weights = ''w'',
                training = True\<rparr>,
      h_feats = ''64''\<rparr>"
  note c7 = C7_two_layer_GraphSAGE [of demo_env ?m "''mfg0''" "''mfg1''" "[]" "''x''"
      "''128''" "''64''" "''40''" heap0 demo_globals "''dataset''"]
  have a: "result (Model_init demo_env ''128'' ''64'' ''40'' heap0) = Inr ?m"
    by code_simp
  have b: "result (cell_model demo_env demo_globals heap0) = Inr ()"
    by code_simp
  have c: "result (cell_task demo_env ''dataset'' heap0) = Inr demo_globals"
    by code_simp
  have d: "py_int (py demo_env) 64 = ''64''" "num_classes demo_globals = ''40''"
    "task_metadata (gb demo_env) ''task'' ''num_classes'' = Some ''40''"
    "ds_tasks (gb demo_env) ''dataset'' = [''task'']"
    "SAGEConv_forward (torch demo_env) = (\<lambda>layer mfg x. Inr ''h'')"
    by (simp_all add: demo_env_def demo_py_def demo_gb_def demo_torch_def demo_globals_def)
  from c7 a b c d show ?thesis
    by (auto simp: bindE_def lookup_def index_list_def)
qed

subsection \<open>The order of the operations\<close>

lemma precedes_Nil [simp]: "precedes P Q []"
  by (simp add: precedes_def)

lemma precedes_without:
  "list_all (\<lambda>ev. \<not> Q ev) xs \<Longrightarrow> precedes P Q ys \<Longrightarrow> precedes P Q (xs @ ys)"
  by (induction xs) (auto simp: precedes_def)

lemma precedes_reached:
  "list_all (\<lambda>ev. \<not> Q ev) xs \<Longrightarrow> P x \<Longrightarrow> precedes P Q (xs @ x # ys)"
  by (induction xs) (auto simp: precedes_def)

lemma list_all_mono': "list_all E t \<Longrightarrow> (\<And>ev. E ev \<Longrightarrow> E' ev) \<Longrightarrow> list_all E' t"
  by (auto simp: list_all_iff)

lemma install_no_loader: "install_event ev \<Longrightarrow> \<not> makes_loader ev \<and> \<not> loop_op ev"
  by (cases ev) auto

lemma setup_no_loop: "setup_event ev \<Longrightarrow> \<not> loop_op ev"
proof (cases ev)
  case (Call a args)
  assume "setup_event ev"
  with Call show ?thesis by (cases a) simp_all
qed simp_all

lemma calls_call: "api_calls (events (call a args r h)) = [a]"
  by (cases r) (simp_all add: call_def seq_def andThen_def emit_def lift_def raise_def ret_def)

lemma events_call: "events (call a args r h) = Call a args # (case r of Inl e \<Rightarrow> [Raise e] | Inr x \<Rightarrow> [])"
  by (cases r) (simp_all add: call_def seq_def andThen_def emit_def lift_def raise_def ret_def)

lemma events_lift: "events (lift r h) = (case r of Inl e \<Rightarrow> [Raise e] | Inr x \<Rightarrow> [])"
  by (cases r) (simp_all add: lift_def raise_def ret_def)

lemma calls_model_call:
  "api_calls (events (model_call env mfgs x h)) = (case model h of None \<Rightarrow> [] | Some m \<Rightarrow> [Model_call])"
  by (simp add: model_call_def get_model_def events_andThen result_andThen heap_andThen getH_def
      raise_def ret_def calls_call split: option.split sum.split)

lemma calls_opt_zero_grad:
  "api_calls (events (opt_zero_grad env h)) = (case opt h of None \<Rightarrow> [] | Some m \<Rightarrow> [Zero_grad])"
  by (simp add: opt_zero_grad_def get_opt_def events_andThen result_andThen heap_andThen getH_def
      raise_def ret_def calls_call modify_def split: option.split sum.split)

lemma calls_loss_backward: "api_calls (events (loss_backward env loss h)) = [Backward]"
  by (simp add: loss_backward_def events_andThen result_andThen heap_andThen getH_def
      raise_def ret_def calls_call modify_def split: option.split sum.split)

lemma calls_opt_step:
  "prefix (api_calls (events (opt_step env h))) [Opt_step]"
  by (simp add: opt_step_def get_opt_def get_model_def events_andThen result_andThen heap_andThen
      getH_def raise_def ret_def calls_call modify_def split: option.split sum.split)


lemma emitsD:
  assumes "emits xs m"
  shows "prefix (api_calls (events (m h))) xs"
    and "result (m h) = Inr y \<Longrightarrow> api_calls (events (m h)) = xs"
  using assms by (auto simp: emits_def)

lemma emits_andThen:
  assumes "emits xs m" and "\<And>x. emits ys (f x)"
  shows "emits (xs @ ys) (andThen m f)"
  unfolding emits_def
proof (intro allI conjI impI)
  fix h y
  show "prefix (api_calls (events (andThen m f h))) (xs @ ys)"
  proof (cases rule: prog_cases [of m h])
    case (fails e h' t)
    with emitsD(1) [OF assms(1), of h] show ?thesis
      by (simp add: andThen_Inl prefix_prefix)
  next
    case (returns x h' t)
    with emitsD(2) [OF assms(1), of h x] emitsD(1) [OF assms(2), of x h'] show ?thesis
      by (simp add: andThen_Inr)
  qed
  assume ok: "result (andThen m f h) = Inr y"
  show "api_calls (events (andThen m f h)) = xs @ ys"
  proof (cases rule: prog_cases [of m h])
    case (fails e h' t)
    with ok show ?thesis by (simp add: andThen_Inl)
  next
    case (returns x h' t)
    with ok emitsD(2) [OF assms(1), of h x] emitsD(2) [OF assms(2), of x h' y] show ?thesis
      by (simp add: andThen_Inr)
  qed
qed

lemma emits_one: "emits [a] m \<Longrightarrow> (\<And>x. emits ys (f x)) \<Longrightarrow> emits (a # ys) (andThen m f)"
  using emits_andThen [of "[a]" m ys f] by simp

lemma emits_none: "emits [] m \<Longrightarrow> (\<And>x. emits ys (f x)) \<Longrightarrow> emits ys (andThen m f)"
  using emits_andThen [of "[]" m ys f] by simp

lemma emits_call: "emits [a] (call a args r)"
  by (cases r) (simp_all add: emits_def call_def seq_def andThen_def emit_def lift_def raise_def ret_def)

lemma emits_lift: "emits [] (lift r)"
  by (cases r) (simp_all add: emits_def lift_def raise_def ret_def)

lemma emits_getH: "emits [] (getH g)" and emits_modify: "emits [] (modify u)"
  and emits_ret: "emits [] (ret x)" and emits_raise: "emits [] (raise e)"
  by (simp_all add: emits_def getH_def modify_def ret_def raise_def)

lemma emits_raise_any: "emits xs (raise e)"
  by (simp add: emits_def raise_def)

lemma andThen_ret [simp]: "andThen (ret x) f = f x"
  by (auto simp: andThen_def ret_def fun_eq_iff split: prod.splits)

lemma andThen_raise [simp]: "andThen (raise e) f = raise e"
  by (simp add: andThen_def raise_def fun_eq_iff)

lemma andThen_assoc: "andThen (andThen m f) g = andThen m (\<lambda>x. andThen (f x) g)"
  by (auto simp: andThen_def fun_eq_iff split: prod.splits sum.splits)

lemma emits_get_model_then:
  assumes "\<And>m. emits xs (f m)"
  shows "emits xs (andThen get_model f)"
  unfolding get_model_def andThen_assoc
proof (rule emits_none [OF emits_getH])
  fix m :: "'a Model option"
  show "emits xs (andThen (case m of None \<Rightarrow> raise (Exn NameError ''model'') | Some m' \<Rightarrow> ret m') f)"
    using assms by (cases m) (simp_all add: emits_raise_any)
qed

lemma emits_get_opt_then:
  assumes "\<And>m. emits xs (f m)"
  shows "emits xs (andThen get_opt f)"
  unfolding get_opt_def andThen_assoc
proof (rule emits_none [OF emits_getH])
  fix m :: "'a option"
  show "emits xs (andThen (case m of None \<Rightarrow> raise (Exn NameError ''opt'') | Some m' \<Rightarrow> ret m') f)"
    using assms by (cases m) (simp_all add: emits_raise_any)
qed

lemma emits_model_call: "emits [Model_call] (model_call env mfgs x)"
  unfolding model_call_def by (rule emits_get_model_then) (rule emits_call)

lemma emits_opt_zero_grad: "emits [Zero_grad] (opt_zero_grad env)"
  unfolding opt_zero_grad_def
  by (intro emits_get_opt_then emits_none [OF emits_getH] emits_one [OF emits_call] emits_modify)

lemma emits_loss_backward: "emits [Backward] (loss_backward env loss)"
  unfolding loss_backward_def
  by (intro emits_none [OF emits_getH] emits_one [OF emits_call] emits_modify)

lemma emits_opt_step: "emits [Opt_step] (opt_step env)"
  unfolding opt_step_def
  by (intro emits_get_opt_then emits_get_model_then emits_none [OF emits_getH]
      emits_one [OF emits_call] emits_modify)

lemma emits_postfix: "emits [] (emit (Postfix l a))"
  by (simp add: emits_def emit_def)

lemma emits_train_step:
  "emits [Model_call, F_cross_entropy, Zero_grad, Backward, Opt_step, Accuracy_score]
     (train_step env data)"
  unfolding train_step_def Let_def seq_def
  apply (rule emits_none [OF emits_lift])
  apply (rule emits_one [OF emits_model_call])
  apply (rule emits_one [OF emits_call])
  apply (rule emits_one [OF emits_opt_zero_grad])
  apply (rule emits_one [OF emits_loss_backward])
  apply (rule emits_one [OF emits_opt_step])
  apply (rule emits_one [OF emits_call])
  apply (rule emits_postfix)
  done

lemma emits_train_iteration: "emits step_order (train_iteration env r)"
  unfolding train_iteration_def step_order_def
  by (rule emits_one [OF emits_call]) (rule emits_train_step)

lemma rounds_train_loop:
  "\<exists>n p. api_calls (events (train_loop env items h)) = concat (replicate n step_order) @ p \<and>
         prefix p step_order \<and> (result (train_loop env items h) = Inr () \<longrightarrow> p = [] \<and> n = length items)"
proof (induction items arbitrary: h)
  case Nil
  have "api_calls (events (train_loop env [] h)) = concat (replicate 0 step_order) @ []"
    by simp
  then show ?case by (metis prefix_bot.bot_least list.size(3))
next
  case (Cons r rest)
  show ?case
  proof (cases rule: prog_cases [of "train_iteration env r" h])
    case (fails e h' t)
    with emitsD(1) [OF emits_train_iteration, of env r h]
    have "api_calls (events (train_loop env (r # rest) h)) = concat (replicate 0 step_order) @ api_calls t"
      and "prefix (api_calls t) step_order"
      and "result (train_loop env (r # rest) h) = Inl e"
      by (simp_all add: seq_def andThen_Inl)
    then show ?thesis by (metis sum.distinct(1))
  next
    case (returns x h' t)
    with emitsD(2) [OF emits_train_iteration, of env r h x]
    have t: "api_calls t = step_order" by simp
    from Cons.IH [of h'] obtain n p where
      "api_calls (events (train_loop env rest h')) = concat (replicate n step_order) @ p"
      and "prefix p step_order"
      and "result (train_loop env rest h') = Inr () \<longrightarrow> p = [] \<and> n = length rest"
      by blast
    with returns t
    have "api_calls (events (train_loop env (r # rest) h)) = concat (replicate (Suc n) step_order) @ p"
      and "prefix p step_order"
      and "result (train_loop env (r # rest) h) = Inr () \<longrightarrow> p = [] \<and> Suc n = length (r # rest)"
      by (simp_all add: seq_def andThen_Inr)
    then show ?thesis by blast
  qed
qed


lemma precedes_andThen_skip:
  assumes "\<And>h. list_all (\<lambda>ev. \<not> Q ev) (events (m h))"
    and "\<And>x h. precedes P Q (events (f x h))"
  shows "precedes P Q (events (andThen m f h))"
  using assms(1) [of h] assms(2)
  by (auto simp: events_andThen precedes_without split: sum.split)

lemma precedes_andThen_reached:
  assumes "\<And>h. \<exists>xs x ys. events (m h) = xs @ x # ys \<and> list_all (\<lambda>ev. \<not> Q ev) xs \<and> P x"
  shows "precedes P Q (events (andThen m f h))"
proof -
  from assms [of h] obtain xs x ys where "events (m h) = xs @ x # ys"
    and "list_all (\<lambda>ev. \<not> Q ev) xs" and "P x"
    by blast
  then show ?thesis
    using precedes_reached [of Q xs P x]
    by (simp add: events_andThen)
qed

lemma no_loop_op:
  assumes "sat f setup_event m"
  shows "list_all (\<lambda>ev. \<not> loop_op ev) (events (m h))"
  by (rule list_all_mono' [OF satD(2) [OF assms]]) (rule setup_no_loop)

lemma events_create_dataloader:
  "\<exists>dp. events (create_dataloader g itemset shuffle h) = [Call (DataLoader_new dp) []] \<and>
        shuffles dp = shuffle \<and>
        result (create_dataloader g itemset shuffle h) = Inr (DataLoader dp) \<and>
        heap_of (create_dataloader g itemset shuffle h) = h"
  by (simp add: create_dataloader_def Let_def seq_def andThen_def emit_def ret_def)

lemma events_cell_loaders:
  "\<exists>tp vp rest. events (cell_loaders env g h) =
      Call (DataLoader_new tp) [] # Call (DataLoader_new vp) [] # rest \<and>
      shuffles tp \<and> \<not> shuffles vp"
proof -
  obtain tp where t: "events (create_dataloader g (train_set g) True h) = [Call (DataLoader_new tp) []]"
    "shuffles tp" "result (create_dataloader g (train_set g) True h) = Inr (DataLoader tp)"
    "heap_of (create_dataloader g (train_set g) True h) = h"
    using events_create_dataloader [of g "train_set g" True h] by auto
  obtain vp where v: "events (create_dataloader g (valid_set g) False h) = [Call (DataLoader_new vp) []]"
    "\<not> shuffles vp" "result (create_dataloader g (valid_set g) False h) = Inr (DataLoader vp)"
    "heap_of (create_dataloader g (valid_set g) False h) = h"
    using events_create_dataloader [of g "valid_set g" False h] by auto
  from t v show ?thesis
    by (simp add: cell_loaders_def events_andThen)
qed

lemma loaders_reached:
  "\<exists>xs x ys. events (cell_loaders env g h) = xs @ x # ys \<and>
      list_all (\<lambda>ev. \<not> loop_op ev) xs \<and> makes_valid_loader x"
proof -
  from events_cell_loaders [of env g h] obtain tp vp rest where
    "events (cell_loaders env g h) = [Call (DataLoader_new tp) []] @ Call (DataLoader_new vp) [] # rest"
    and "\<not> shuffles vp"
    by auto
  then show ?thesis
    by (intro exI [of _ "[Call (DataLoader_new tp) []]"] exI [of _ "Call (DataLoader_new vp) []"]
        exI [of _ rest]) simp
qed

lemma loaders_before_loop: "precedes makes_valid_loader loop_op (events (after_install env installed h))"
  unfolding after_install_def preview_cells_def training_cells_def seq_def
  apply (rule precedes_andThen_skip [OF no_loop_op [OF sat_cell_dataset]])
  apply (rule precedes_andThen_skip [OF no_loop_op [OF sat_cell_task]])
  apply (rule precedes_andThen_skip)
   apply (rule no_loop_op [of files])
   apply (intro sat_intros sat_cell_preview sat_cell_input_nodes files_free)
  apply (rule precedes_andThen_skip [OF no_loop_op [OF sat_cell_model [OF files_free(1,4)]]])
  apply (rule precedes_andThen_skip [OF no_loop_op [OF sat_cell_opt [OF files_free(4)]]])
  apply (rule precedes_andThen_reached [OF loaders_reached])
  done

lemma dataset_before_loaders:
  "precedes loads_dataset makes_loader (events (after_install env installed h))"
proof (cases installed)
  case True
  show ?thesis
    unfolding after_install_def
  proof (rule precedes_andThen_reached)
    fix h'
    show "\<exists>xs x ys. events (cell_dataset env installed h') = xs @ x # ys \<and>
            list_all (\<lambda>ev. \<not> makes_loader ev) xs \<and> loads_dataset x"
      using True
      by (intro exI [of _ "[]"] exI [of _ "Call (BuiltinDataset_load ''ogbn-arxiv-seeds'') []"]
          exI [of _ "case load (gb env) ''ogbn-arxiv-seeds'' of Inl e \<Rightarrow> [Raise e] | Inr x \<Rightarrow> []"])
        (simp add: cell_dataset_def events_call)
  qed
next
  case False
  then show ?thesis
    by (simp add: after_install_def cell_dataset_def precedes_def andThen_raise)
      (simp add: raise_def)
qed

lemma order_notebook:
  "precedes loads_dataset makes_loader (events (notebook env h)) \<and>
   precedes makes_valid_loader loop_op (events (notebook env h))"
  unfolding notebook_def
proof (intro conjI precedes_andThen_skip dataset_before_loaders loaders_before_loop)
  fix h'
  show "list_all (\<lambda>ev. \<not> makes_loader ev) (events (cell_install env h'))"
    by (rule list_all_mono' [OF satD(2) [OF sat_cell_install [of files]]])
      (simp add: install_no_loader)
  show "list_all (\<lambda>ev. \<not> loop_op ev) (events (cell_install env h'))"
    by (rule list_all_mono' [OF satD(2) [OF sat_cell_install [of files]]])
      (simp add: install_no_loader)
qed




subsection \<open>What is printed\<close>

named_theorems silent_intros

lemma silentD: "silent m \<Longrightarrow> printed (events (m h)) = []"
  by (simp add: silent_def)

lemma silent_ret [silent_intros]: "silent (ret x)"
  and silent_raise [silent_intros]: "silent (raise e)"
  and silent_getH [silent_intros]: "silent (getH g)"
  and silent_modify [silent_intros]: "silent (modify u)"
  and silent_fresh [silent_intros]: "silent fresh"
  by (simp_all add: silent_def ret_def raise_def getH_def modify_def fresh_def)

lemma silent_emit [silent_intros]: "printed [ev] = [] \<Longrightarrow> silent (emit ev)"
  by (simp add: silent_def emit_def)

lemma silent_andThen [silent_intros]: "silent m \<Longrightarrow> (\<And>x. silent (f x)) \<Longrightarrow> silent (andThen m f)"
  by (simp add: silent_def events_andThen split: sum.split)

lemma silent_seq [silent_intros]: "silent m \<Longrightarrow> silent n \<Longrightarrow> silent (seq m n)"
  by (simp add: seq_def silent_andThen)

lemma silent_lift [silent_intros]: "silent (lift r)"
  by (cases r) (simp_all add: lift_def silent_ret silent_raise)

lemma silent_call [silent_intros]: "silent (call a args r)"
  by (simp add: call_def silent_seq silent_emit silent_lift)

lemma silent_import [silent_intros]: "silent (import_stmt env name)"
  by (simp add: import_stmt_def silent_emit silent_raise split: option.split)

lemma silent_with_block [silent_intros]: "silent body \<Longrightarrow> silent (with_block c body)"
  by (simp add: silent_def events_with_block)

lemma silent_case_option [silent_intros]:
  "silent a \<Longrightarrow> (\<And>x. silent (b x)) \<Longrightarrow> silent (case v of None \<Rightarrow> a | Some x \<Rightarrow> b x)"
  by (cases v) simp_all

lemma silent_get_model [silent_intros]: "silent get_model"
  unfolding get_model_def by (intro silent_intros)

lemma silent_get_opt [silent_intros]: "silent get_opt"
  unfolding get_opt_def by (intro silent_intros)

lemma silent_cell_dataset: "silent (cell_dataset env installed)"
  by (simp add: cell_dataset_def silent_call silent_raise)

lemma silent_create_dataloader: "silent (create_dataloader g itemset shuffle)"
  unfolding create_dataloader_def Let_def by (intro silent_intros) simp

lemma silent_iter_loader: "silent (iter_loader env dl)"
  unfolding iter_loader_def by (intro silent_intros) simp

lemma silent_cell_model: "silent (cell_model env g)"
  unfolding cell_model_def Model_init_def make_SAGEConv_def Model_to_def
  by (intro silent_intros)

lemma silent_cell_opt: "silent (cell_opt env)"
  unfolding cell_opt_def by (intro silent_intros)

lemma silent_cell_loaders: "silent (cell_loaders env g)"
  unfolding cell_loaders_def by (intro silent_intros silent_create_dataloader)

lemma silent_model_call: "silent (model_call env mfgs x)"
  unfolding model_call_def by (intro silent_intros)

lemma silent_train_step: "silent (train_step env data)"
  unfolding train_step_def Let_def opt_zero_grad_def loss_backward_def opt_step_def
  by (intro silent_intros silent_model_call) simp

lemma silent_train_loop: "silent (train_loop env items)"
  by (induction items)
    (simp_all add: silent_ret silent_seq train_iteration_def silent_andThen silent_call
      silent_train_step)

lemma silent_train_phase: "silent (train_phase env dl)"
  unfolding train_phase_def model_train_def
  by (intro silent_intros silent_iter_loader silent_train_loop) simp

lemma silent_valid_loop: "silent (valid_loop env items predictions labels)"
proof (induction items arbitrary: predictions labels)
  case Nil
  show ?case by (simp add: silent_ret)
next
  case (Cons r rest)
  show ?case
    unfolding valid_loop.simps Let_def
    by (intro silent_intros silent_model_call Cons.IH)
qed

lemma silent_model_eval: "silent model_eval"
  unfolding model_eval_def by (intro silent_intros) simp


lemma events_emit [simp]: "events (emit ev h) = [ev]" and result_emit [simp]: "result (emit ev h) = Inr ()"
  and heap_emit [simp]: "heap_of (emit ev h) = h"
  by (simp_all add: emit_def)

lemma printed_call [simp]: "printed (events (call a args r h)) = []"
  by (rule silentD [OF silent_call])

lemma printed_lift [simp]: "printed (events (lift r h)) = []"
  by (rule silentD [OF silent_lift])

lemma printed_cell_install:
  assumes "result (cell_install env h) = Inr True"
  shows "printed (events (cell_install env h)) = [''DGL installed!'']"
  using assms by (auto simp: cell_install_def run_defs split: option.splits if_splits)

lemma cell_dataset_returns:
  assumes "result (cell_dataset env installed h) = Inr dataset"
  shows "installed \<and> load (gb env) ''ogbn-arxiv-seeds'' = Inr dataset"
  using assms by (cases installed) (simp_all add: cell_dataset_def raise_def)

lemma printed_cell_task:
  assumes "result (cell_task env dataset h) = Inr g"
  shows "printed (events (cell_task env dataset h)) = [task_line env (task_name g) (num_classes g)]"
  using assms unfolding cell_task_def task0_def
  by (elim andThen_returns seq_returns) auto

lemma cell_preview_returns:
  assumes "result (cell_preview env g h) = Inr data"
  shows "printed (events (cell_preview env g h)) = [str_of (py env) data] \<and>
         (\<exists>dl k rest. result (create_dataloader g (train_set g) True h) = Inr dl \<and>
            run_datapipe env (pipe_of dl) k = Inr data # rest)"
  using assms unfolding cell_preview_def iter_loader_def
  apply (elim andThen_returns seq_returns)
  apply (auto simp: silentD [OF silent_create_dataloader] split: list.splits)
  apply (auto simp: fresh_def raise_def seq_def andThen_def emit_def)
  done

lemma cell_input_nodes_returns:
  assumes "result (cell_input_nodes env data h) = Inr u"
  shows "\<exists>mfg0 input_nodes. index_list (mb_blocks (gb env) data) 0 = Inr mfg0 \<and>
           lookup (srcdata (gb env) mfg0) (NID (gb env)) = Inr input_nodes \<and>
           printed (events (cell_input_nodes env data h)) = [input_nodes_line env input_nodes]"
  using assms unfolding cell_input_nodes_def Let_def
  by (elim andThen_returns seq_returns) auto

lemma valid_report_returns:
  assumes "result (valid_report env epoch ps ls h) = Inr ()"
  shows "\<exists>labels predictions accuracy.
           accuracy_score (py env) labels predictions = Inr accuracy \<and>
           printed (events (valid_report env epoch ps ls h)) = [epoch_line env epoch accuracy]"
  using assms unfolding valid_report_def by (elim andThen_returns) auto

lemma valid_body_returns:
  assumes "result (valid_body env dl epoch h) = Inr ()"
  shows "\<exists>labels predictions accuracy.
           accuracy_score (py env) labels predictions = Inr accuracy \<and>
           printed (events (valid_body env dl epoch h)) = [epoch_line env epoch accuracy]"
  using assms unfolding valid_body_def
  by (elim andThen_returns)
    (auto simp: silentD [OF silent_iter_loader] silentD [OF silent_valid_loop]
      dest: valid_report_returns)


lemma valid_phase_returns:
  assumes "result (valid_phase env dl epoch h) = Inr ()"
  shows "\<exists>labels predictions accuracy.
           accuracy_score (py env) labels predictions = Inr accuracy \<and>
           printed (events (valid_phase env dl epoch h)) = [epoch_line env epoch accuracy]"
  using assms unfolding valid_phase_def
  by (elim seq_returns)
    (auto simp: silentD [OF silent_model_eval] events_with_block result_with_block
      dest: valid_body_returns)

lemma run_epoch_returns:
  assumes "result (run_epoch env tdl vdl epoch h) = Inr ()"
  shows "\<exists>labels predictions accuracy.
           accuracy_score (py env) labels predictions = Inr accuracy \<and>
           printed (events (run_epoch env tdl vdl epoch h)) = [epoch_line env epoch accuracy]"
  using assms unfolding run_epoch_def
  by (elim seq_returns) (auto simp: silentD [OF silent_train_phase] dest: valid_phase_returns)

lemma epochs_returns:
  assumes "result (epochs env tdl vdl es h) = Inr u"
  shows "\<exists>accs. length accs = length es \<and>
           printed (events (epochs env tdl vdl es h)) =
             map (\<lambda>(epoch, accuracy). epoch_line env epoch accuracy) (zip es accs) \<and>
           list_all (\<lambda>accuracy. \<exists>labels predictions.
             accuracy_score (py env) labels predictions = Inr accuracy) accs"
  using assms
proof (induction es arbitrary: h)
  case Nil
  then show ?case by simp
next
  case (Cons epoch rest)
  from Cons.prems obtain u' where e: "result (run_epoch env tdl vdl epoch h) = Inr u'"
    and r: "result (epochs env tdl vdl rest (heap_of (run_epoch env tdl vdl epoch h))) = Inr u"
    and ev: "events (epochs env tdl vdl (epoch # rest) h) = events (run_epoch env tdl vdl epoch h) @
          events (epochs env tdl vdl rest (heap_of (run_epoch env tdl vdl epoch h)))"
    unfolding epochs.simps by (rule seq_returns)
  from run_epoch_returns [of env tdl vdl epoch h] e obtain labels predictions accuracy
    where a: "accuracy_score (py env) labels predictions = Inr accuracy"
      and p: "printed (events (run_epoch env tdl vdl epoch h)) = [epoch_line env epoch accuracy]"
    by auto
  from Cons.IH [OF r] obtain accs where "length accs = length rest"
    and "printed (events (epochs env tdl vdl rest (heap_of (run_epoch env tdl vdl epoch h)))) =
      map (\<lambda>(epoch, accuracy). epoch_line env epoch accuracy) (zip rest accs)"
    and "list_all (\<lambda>accuracy. \<exists>labels predictions.
      accuracy_score (py env) labels predictions = Inr accuracy) accs"
    by blast
  with a p ev show ?case
    by (intro exI [of _ "accuracy # accs"]) auto
qed

lemma cell_train_returns:
  assumes "result (cell_train env tdl vdl h) = Inr u"
  shows "\<exists>accs. length accs = 10 \<and>
           printed (events (cell_train env tdl vdl h)) =
             map (\<lambda>(epoch, accuracy). epoch_line env epoch accuracy) (zip [0..<10] accs) \<and>
           list_all (\<lambda>accuracy. \<exists>labels predictions.
             accuracy_score (py env) labels predictions = Inr accuracy) accs"
proof -
  from assms obtain u' where
    r: "result (epochs env tdl vdl [0..<10] (heap_of (import_stmt env ''tqdm.auto'' h))) = Inr u"
    and ev: "events (cell_train env tdl vdl h) = events (import_stmt env ''tqdm.auto'' h) @
      events (epochs env tdl vdl [0..<10] (heap_of (import_stmt env ''tqdm.auto'' h)))"
    unfolding cell_train_def by (rule seq_returns)
  from epochs_returns [OF r] ev show ?thesis
    by (simp add: silentD [OF silent_import])
qed


lemma preview_cells_returns:
  assumes "result (preview_cells env g h) = Inr u"
  shows "\<exists>data input_nodes mfg0.
     printed (events (preview_cells env g h)) =
       [str_of (py env) data, input_nodes_line env input_nodes] \<and>
     index_list (mb_blocks (gb env) data) 0 = Inr mfg0 \<and>
     lookup (srcdata (gb env) mfg0) (NID (gb env)) = Inr input_nodes"
proof -
  from assms obtain data where d: "result (cell_preview env g h) = Inr data"
    and n: "result (cell_input_nodes env data (heap_of (cell_preview env g h))) = Inr u"
    and "heap_of (preview_cells env g h) =
      heap_of (cell_input_nodes env data (heap_of (cell_preview env g h)))"
    and e: "events (preview_cells env g h) = events (cell_preview env g h) @
      events (cell_input_nodes env data (heap_of (cell_preview env g h)))"
    unfolding preview_cells_def by (rule andThen_returns)
  from cell_input_nodes_returns [OF n] cell_preview_returns [OF d] e show ?thesis
    by auto
qed

lemma training_cells_returns:
  assumes "result (training_cells env g h) = Inr u"
  shows "\<exists>accs. length accs = 10 \<and>
           printed (events (training_cells env g h)) =
             map (\<lambda>(epoch, accuracy). epoch_line env epoch accuracy) (zip [0..<10] accs) \<and>
           list_all (\<lambda>accuracy. \<exists>labels predictions.
             accuracy_score (py env) labels predictions = Inr accuracy) accs"
  using assms unfolding training_cells_def
  by (elim andThen_returns seq_returns)
    (auto simp: silentD [OF silent_cell_model] silentD [OF silent_cell_opt]
      silentD [OF silent_cell_loaders] dest: cell_train_returns)

lemma after_install_returns:
  assumes "result (after_install env installed h) = Inr u"
  shows "\<exists>dataset t name classes data input_nodes mfg0 accs.
     printed (events (after_install env installed h)) =
       [task_line env name classes, str_of (py env) data, input_nodes_line env input_nodes]
       @ map (\<lambda>(epoch, accuracy). epoch_line env epoch accuracy) (zip [0..<10] accs) \<and>
     length accs = 10 \<and> installed \<and>
     load (gb env) ''ogbn-arxiv-seeds'' = Inr dataset \<and>
     index_list (ds_tasks (gb env) dataset) 0 = Inr t \<and>
     lookup (task_metadata (gb env) t) ''name'' = Inr name \<and>
     lookup (task_metadata (gb env) t) ''num_classes'' = Inr classes \<and>
     index_list (mb_blocks (gb env) data) 0 = Inr mfg0 \<and>
     lookup (srcdata (gb env) mfg0) (NID (gb env)) = Inr input_nodes \<and>
     list_all (\<lambda>accuracy. \<exists>labels predictions.
       accuracy_score (py env) labels predictions = Inr accuracy) accs"
proof -
  from assms obtain dataset g u' where d: "result (cell_dataset env installed h) = Inr dataset"
    and t: "result (cell_task env dataset (heap_of (cell_dataset env installed h))) = Inr g"
    and p: "result (preview_cells env g
        (heap_of (cell_task env dataset (heap_of (cell_dataset env installed h))))) = Inr u'"
    and c: "result (training_cells env g (heap_of (preview_cells env g
        (heap_of (cell_task env dataset (heap_of (cell_dataset env installed h))))))) = Inr u"
    and e: "events (after_install env installed h) =
      events (cell_dataset env installed h) @
      events (cell_task env dataset (heap_of (cell_dataset env installed h))) @
      events (preview_cells env g
        (heap_of (cell_task env dataset (heap_of (cell_dataset env installed h))))) @
      events (training_cells env g (heap_of (preview_cells env g
        (heap_of (cell_task env dataset (heap_of (cell_dataset env installed h)))))))"
    unfolding after_install_def by (elim andThen_returns seq_returns) simp
  from cell_task_returns [OF t] obtain t' where
    t': "index_list (ds_tasks (gb env) dataset) 0 = Inr t'"
      "lookup (task_metadata (gb env) t') ''name'' = Inr (task_name g)"
      "lookup (task_metadata (gb env) t') ''num_classes'' = Inr (num_classes g)"
    by blast
  from preview_cells_returns [OF p] obtain data input_nodes mfg0 where
    p': "printed (events (preview_cells env g
        (heap_of (cell_task env dataset (heap_of (cell_dataset env installed h)))))) =
       [str_of (py env) data, input_nodes_line env input_nodes]"
      "index_list (mb_blocks (gb env) data) 0 = Inr mfg0"
      "lookup (srcdata (gb env) mfg0) (NID (gb env)) = Inr input_nodes"
    by blast
  from training_cells_returns [OF c] obtain accs where
    c': "length accs = 10"
      "printed (events (training_cells env g (heap_of (preview_cells env g
        (heap_of (cell_task env dataset (heap_of (cell_dataset env installed h)))))))) =
       map (\<lambda>(epoch, accuracy). epoch_line env epoch accuracy) (zip [0..<10] accs)"
      "list_all (\<lambda>accuracy. \<exists>labels predictions.
         accuracy_score (py env) labels predictions = Inr accuracy) accs"
    by blast
  have pr: "printed (events (after_install env installed h)) =
       [task_line env (task_name g) (num_classes g), str_of (py env) data,
        input_nodes_line env input_nodes]
       @ map (\<lambda>(epoch, accuracy). epoch_line env epoch accuracy) (zip [0..<10] accs)"
    by (simp add: e silentD [OF silent_cell_dataset] printed_cell_task [OF t] p'(1) c'(2))
  from cell_dataset_returns [OF d] have i: "installed"
    and l: "load (gb env) ''ogbn-arxiv-seeds'' = Inr dataset"
    by simp_all
  show ?thesis
    by (intro exI conjI) (rule pr i l t' p'(2,3) c'(1,3))+
qed

lemma notebook_returns:
  assumes "result (notebook env h) = Inr ()"
  shows "\<exists>dataset t name classes data input_nodes mfg0 accs.
     printed (events (notebook env h)) =
       [''DGL installed!'', task_line env name classes, str_of (py env) data,
        input_nodes_line env input_nodes]
       @ map (\<lambda>(epoch, accuracy). epoch_line env epoch accuracy) (zip [0..<10] accs) \<and>
     length accs = 10 \<and>
     load (gb env) ''ogbn-arxiv-seeds'' = Inr dataset \<and>
     index_list (ds_tasks (gb env) dataset) 0 = Inr t \<and>
     lookup (task_metadata (gb env) t) ''name'' = Inr name \<and>
     lookup (task_metadata (gb env) t) ''num_classes'' = Inr classes \<and>
     index_list (mb_blocks (gb env) data) 0 = Inr mfg0 \<and>
     lookup (srcdata (gb env) mfg0) (NID (gb env)) = Inr input_nodes \<and>
     list_all (\<lambda>accuracy. \<exists>labels predictions.
       accuracy_score (py env) labels predictions = Inr accuracy) accs"
proof -
  from assms obtain installed where i: "result (cell_install env h) = Inr installed"
    and a: "result (after_install env installed (heap_of (cell_install env h))) = Inr ()"
    and "heap_of (notebook env h) = heap_of (after_install env installed (heap_of (cell_install env h)))"
    and e: "events (notebook env h) = events (cell_install env h) @
      events (after_install env installed (heap_of (cell_install env h)))"
    unfolding notebook_def by (rule andThen_returns)
  from after_install_returns [OF a] obtain dataset t name classes data input_nodes mfg0 accs where
    r: "printed (events (after_install env installed (heap_of (cell_install env h)))) =
       [task_line env name classes, str_of (py env) data, input_nodes_line env input_nodes]
       @ map (\<lambda>(epoch, accuracy). epoch_line env epoch accuracy) (zip [0..<10] accs)"
      "length accs = 10" "installed"
      "load (gb env) ''ogbn-arxiv-seeds'' = Inr dataset"
      "index_list (ds_tasks (gb env) dataset) 0 = Inr t"
      "lookup (task_metadata (gb env) t) ''name'' = Inr name"
      "lookup (task_metadata (gb env) t) ''num_classes'' = Inr classes"
      "index_list (mb_blocks (gb env) data) 0 = Inr mfg0"
      "lookup (srcdata (gb env) mfg0) (NID (gb env)) = Inr input_nodes"
      "list_all (\<lambda>accuracy. \<exists>labels predictions.
         accuracy_score (py env) labels predictions = Inr accuracy) accs"
    by blast
  from i r(3) have "printed (events (cell_install env h)) = [''DGL installed!'']"
    by (simp add: printed_cell_install)
  with r(1) e have pr: "printed (events (notebook env h)) =
       [''DGL installed!'', task_line env name classes, str_of (py env) data,
        input_nodes_line env input_nodes]
       @ map (\<lambda>(epoch, accuracy). epoch_line env epoch accuracy) (zip [0..<10] accs)"
    by simp
  show ?thesis
    by (intro exI conjI) (rule pr r(2,4-10))+
qed

lemma validation_has_no_loss:
  "list_all validation_event t \<Longrightarrow> F_cross_entropy \<notin> set (api_calls t)"
proof (induction t rule: api_calls.induct)
  case (2 f args evs)
  then show ?case by (cases f) simp_all
qed simp_all




subsection \<open>Where the tensors reside\<close>

lemma notebook_event_devices:
  "notebook_event ev \<Longrightarrow> list_all (\<lambda>d. d = Device ''cpu'') (event_devices ev)"
proof (cases ev)
  case (Call a args)
  assume "notebook_event ev"
  with Call show ?thesis by (cases a) (simp_all add: device_def)
qed simp_all

lemma placedD:
  assumes "placed env m Q" and "placed_model env h"
  shows "placed_model env (heap_of (m h))" and "list_all (resident_event env) (events (m h))"
    and "result (m h) = Inr x \<Longrightarrow> Q x"
  using assms by (auto simp: placed_def)

lemma placed_andThen:
  assumes "placed env m Q" and "\<And>x. Q x \<Longrightarrow> placed env (f x) R"
  shows "placed env (andThen m f) R"
  unfolding placed_def
proof (intro allI impI)
  fix h
  assume h: "placed_model env h"
  show "placed_model env (heap_of (andThen m f h)) \<and>
        list_all (resident_event env) (events (andThen m f h)) \<and>
        (\<forall>x. result (andThen m f h) = Inr x \<longrightarrow> R x)"
  proof (cases rule: prog_cases [of m h])
    case (fails e h' t)
    with placedD(1,2) [OF assms(1) h] show ?thesis
      by (simp add: andThen_Inl)
  next
    case (returns x h' t)
    with placedD(1,2) [OF assms(1) h] placedD(3) [OF assms(1) h, of x]
    have *: "placed_model env h'" "list_all (resident_event env) t" "Q x"
      by simp_all
    note f = assms(2) [OF *(3)]
    from returns * placedD(1,2) [OF f *(1)] placedD(3) [OF f *(1)] show ?thesis
      by (simp add: andThen_Inr [where m = m and h = h, OF returns])
  qed
qed

lemma placed_seq: "placed env m Q \<Longrightarrow> placed env n R \<Longrightarrow> placed env (seq m n) R"
  unfolding seq_def by (rule placed_andThen)

lemma placed_weaken: "placed env m Q \<Longrightarrow> (\<And>x. Q x \<Longrightarrow> Q' x) \<Longrightarrow> placed env m Q'"
  by (auto simp: placed_def)

lemma placed_ret: "Q x \<Longrightarrow> placed env (ret x) Q"
  by (simp add: placed_def ret_def)

lemma placed_raise: "placed env (raise e) Q"
  by (simp add: placed_def raise_def resident_event_def)

lemma placed_lift: "(\<And>x. r = Inr x \<Longrightarrow> Q x) \<Longrightarrow> placed env (lift r) Q"
  by (cases r) (simp_all add: lift_def placed_ret placed_raise)

lemma placed_emit: "resident_event env ev \<Longrightarrow> Q () \<Longrightarrow> placed env (emit ev) Q"
  by (simp add: placed_def emit_def)

lemma placed_call:
  "resident_event env (Call a args) \<Longrightarrow> (\<And>x. r = Inr x \<Longrightarrow> Q x) \<Longrightarrow> placed env (call a args r) Q"
  by (cases r)
     (simp_all add: placed_def call_def seq_def andThen_def emit_def lift_def raise_def ret_def
       resident_event_def)

lemma placed_getH: "(\<And>h. Q (f h)) \<Longrightarrow> placed env (getH f) Q"
  by (simp add: placed_def getH_def)

lemma placed_modify:
  "(\<And>h. placed_model env h \<Longrightarrow> placed_model env (f h)) \<Longrightarrow> Q () \<Longrightarrow> placed env (modify f) Q"
  by (simp add: placed_def modify_def)

lemma placed_fresh: "placed env fresh (\<lambda>k. True)"
  by (simp add: placed_def fresh_def placed_model_def)

lemma placed_import: "placed env (import_stmt env' name) (\<lambda>u. True)"
  by (simp add: import_stmt_def placed_raise placed_emit resident_event_def split: option.split)

lemma placed_with_block: "placed env body Q \<Longrightarrow> placed env (with_block c body) Q"
  by (auto simp: placed_def events_with_block result_with_block heap_with_block
      resident_event_def)

lemma placed_get_model:
  "placed env get_model (\<lambda>m. list_all (resides env) (params_list m))"
  by (auto simp: placed_def get_model_def andThen_def getH_def raise_def ret_def
      placed_model_def resident_event_def split: option.splits)

lemma placed_get_opt: "placed env get_opt (\<lambda>x. True)"
  by (auto simp: placed_def get_opt_def andThen_def getH_def raise_def ret_def
      resident_event_def split: option.splits)

lemma quiet_events:
  assumes "list_all E t" and "\<And>ev. E ev \<Longrightarrow> tensor_args ev = []"
  shows "list_all (resident_event env) t"
  using assms by (induction t) (auto simp: resident_event_def)

lemma setup_quiet: "setup_event ev \<Longrightarrow> tensor_args ev = []"
proof (cases ev)
  case (Call a args)
  assume "setup_event ev"
  with Call show ?thesis by (cases a) simp_all
qed simp_all

lemma install_quiet: "install_event ev \<Longrightarrow> tensor_args ev = []"
  by (cases ev) simp_all

text \<open>The laws, one by one.\<close>

lemma device_laws_conjuncts:
  assumes "device_laws env"
  shows "\<forall>v v'. to_device (gb env) v device = Inr v' \<longrightarrow> resides env v'"
    and "\<forall>ps ps'. module_to (torch env) ps device = Inr ps' \<longrightarrow>
        resides env (fst ps') \<and> resides env (snd ps')"
    and "\<forall>attrs v v'. run_copy_to (gb env) device attrs v = Inr v' \<longrightarrow> resides env v'"
    and "\<forall>gr fanouts v v'. resides env gr \<and> resides env v \<and>
        run_sample_neighbor (gb env) gr fanouts v = Inr v' \<longrightarrow> resides env v'"
    and "\<forall>fs keys v v'. resides env fs \<and> resides env v \<and>
        run_fetch_feature (gb env) fs keys v = Inr v' \<longrightarrow> resides env v'"
    and "\<forall>v. resides env v \<longrightarrow> resides env (mb_labels (gb env) v) \<and>
        list_all (resides env) (mb_blocks (gb env) v) \<and>
        (\<forall>k x. mb_node_features (gb env) v k = Some x \<longrightarrow> resides env x)"
    and "\<forall>layer mfg x y. resides env (weights layer) \<and> resides env mfg \<and> resides env x \<and>
        SAGEConv_forward (torch env) layer mfg x = Inr y \<longrightarrow> resides env y"
    and "\<forall>x. resides env x \<longrightarrow> resides env (relu (torch env) x)"
    and "\<forall>p l y. resides env p \<and> resides env l \<and>
        cross_entropy (torch env) p l = Inr y \<longrightarrow> resides env y"
    and "\<forall>opt' ps g r. resides env (fst ps) \<and> resides env (snd ps) \<and>
        step (torch env) opt' ps g = Inr r \<longrightarrow>
        resides env (fst (snd r)) \<and> resides env (snd (snd r))"
  using assms unfolding device_laws_def
  apply -
  apply (elim conjE, assumption)+
  done

lemma law_to_device: "device_laws env \<Longrightarrow> to_device (gb env) v device = Inr v' \<Longrightarrow> resides env v'"
  using device_laws_conjuncts(1) [of env] by blast

lemma law_module_to:
  "device_laws env \<Longrightarrow> module_to (torch env) ps device = Inr ps' \<Longrightarrow>
     resides env (fst ps') \<and> resides env (snd ps')"
  using device_laws_conjuncts(2) [of env] by blast

lemma law_copy_to:
  "device_laws env \<Longrightarrow> run_copy_to (gb env) device attrs v = Inr v' \<Longrightarrow> resides env v'"
  using device_laws_conjuncts(3) [of env] by blast

lemma law_sample_neighbor:
  "device_laws env \<Longrightarrow> resides env gr \<Longrightarrow> resides env v \<Longrightarrow>
     run_sample_neighbor (gb env) gr fanouts v = Inr v' \<Longrightarrow> resides env v'"
  using device_laws_conjuncts(4) [of env] by blast

lemma law_fetch_feature:
  "device_laws env \<Longrightarrow> resides env fs \<Longrightarrow> resides env v \<Longrightarrow>
     run_fetch_feature (gb env) fs keys v = Inr v' \<Longrightarrow> resides env v'"
  using device_laws_conjuncts(5) [of env] by blast

lemma law_minibatch:
  assumes "device_laws env" and "resides env v"
  shows "resides env (mb_labels (gb env) v)"
    and "list_all (resides env) (mb_blocks (gb env) v)"
    and "mb_node_features (gb env) v k = Some x \<Longrightarrow> resides env x"
  using device_laws_conjuncts(6) [OF assms(1)] assms(2) by blast+

lemma law_SAGEConv:
  "device_laws env \<Longrightarrow> resides env (weights layer) \<Longrightarrow> resides env mfg \<Longrightarrow> resides env x \<Longrightarrow>
     SAGEConv_forward (torch env) layer mfg x = Inr y \<Longrightarrow> resides env y"
  using device_laws_conjuncts(7) [of env] by blast

lemma law_relu: "device_laws env \<Longrightarrow> resides env x \<Longrightarrow> resides env (relu (torch env) x)"
  using device_laws_conjuncts(8) [of env] by blast

lemma law_cross_entropy:
  "device_laws env \<Longrightarrow> resides env p \<Longrightarrow> resides env l \<Longrightarrow>
     cross_entropy (torch env) p l = Inr y \<Longrightarrow> resides env y"
  using device_laws_conjuncts(9) [of env] by blast

lemma law_step:
  "device_laws env \<Longrightarrow> resides env (fst ps) \<Longrightarrow> resides env (snd ps) \<Longrightarrow>
     step (torch env) opt' ps g = Inr r \<Longrightarrow>
     resides env (fst (snd r)) \<and> resides env (snd (snd r))"
  using device_laws_conjuncts(10) [of env] by blast

text \<open>The model, the loss and the optimizer.\<close>

lemma index_list_resides:
  "list_all (resides env) xs \<Longrightarrow> index_list xs i = Inr x \<Longrightarrow> resides env x"
  by (auto simp: index_list_def list_all_length split: if_splits)

lemma forward_resides:
  assumes laws: "device_laws env" and ps: "list_all (resides env) (params_list m)"
    and mfgs: "list_all (resides env) mfgs" and x: "resides env x"
    and y: "forward env m mfgs x = Inr y"
  shows "resides env y"
proof -
  from y obtain mfg0 h1 mfg1 where
      0: "index_list mfgs 0 = Inr mfg0"
      and 1: "SAGEConv_forward (torch env) (conv1 m) mfg0 x = Inr h1"
      and 2: "index_list mfgs 1 = Inr mfg1"
      and 3: "SAGEConv_forward (torch env) (conv2 m) mfg1 (relu (torch env) h1) = Inr y"
    by (auto simp: forward_def bindE_Inr_iff Let_def)
  from ps have w: "resides env (weights (conv1 m))" "resides env (weights (conv2 m))"
    by (simp_all add: params_list_def)
  have "resides env h1"
    by (rule law_SAGEConv [OF laws w(1) index_list_resides [OF mfgs 0] x 1])
  then have "resides env (relu (torch env) h1)"
    by (rule law_relu [OF laws])
  then show ?thesis
    by (rule law_SAGEConv [OF laws w(2) index_list_resides [OF mfgs 2] _ 3])
qed

lemma placed_model_call:
  assumes "device_laws env" and "list_all (resides env) mfgs" and "resides env x"
  shows "placed env (model_call env mfgs x) (resides env)"
  unfolding model_call_def
proof (rule placed_andThen [OF placed_get_model])
  fix m :: "'a Model"
  assume m: "list_all (resides env) (params_list m)"
  show "placed env (call Model_call (mfgs @ [x] @ params_list m) (forward env m mfgs x))
          (resides env)"
  proof (rule placed_call)
    show "resident_event env (Call Model_call (mfgs @ [x] @ params_list m))"
      using assms(2,3) m by (simp add: resident_event_def)
    show "resides env y" if "forward env m mfgs x = Inr y" for y
      using forward_resides [OF assms(1) m assms(2,3) that] .
  qed
qed

lemma placed_model_grads [simp]: "placed_model env (h\<lparr>grads := g\<rparr>) = placed_model env h"
  by (simp add: placed_model_def)

lemma placed_opt_zero_grad: "placed env (opt_zero_grad env') (\<lambda>u. True)"
  unfolding opt_zero_grad_def
  by (intro placed_andThen [OF placed_get_opt] placed_andThen [OF placed_getH [where Q = "\<lambda>g. True"]]
        placed_andThen [OF placed_call [where Q = "\<lambda>g. True"]] placed_modify)
     (simp_all add: resident_event_def)

lemma placed_loss_backward:
  "resides env loss \<Longrightarrow> placed env (loss_backward env' loss) (\<lambda>u. True)"
  unfolding loss_backward_def
  by (intro placed_andThen [OF placed_getH [where Q = "\<lambda>g. True"]]
        placed_andThen [OF placed_call [where Q = "\<lambda>g. True"]] placed_modify)
     (simp_all add: resident_event_def)

lemma placed_opt_step:
  assumes "device_laws env"
  shows "placed env (opt_step env) (\<lambda>u. True)"
  unfolding opt_step_def
proof (rule placed_andThen [OF placed_get_opt], rule placed_andThen [OF placed_get_model],
    rule placed_andThen [OF placed_getH [where Q = "\<lambda>g. True"]], simp)
  fix opt' :: 'a and m :: "'a Model" and g :: "'a option"
  assume m: "list_all (resides env) (params_list m)"
  let ?Q = "\<lambda>r. resides env (fst (snd r)) \<and> resides env (snd (snd r))"
  have "placed env (call Opt_step (params_list m) (step (torch env) opt' (parameters m) g)) ?Q"
  proof (rule placed_call)
    show "resident_event env (Call Opt_step (params_list m))"
      using m by (simp add: resident_event_def)
    show "?Q r" if "step (torch env) opt' (parameters m) g = Inr r" for r
      using law_step [OF assms _ _ that] m by (simp add: params_list_def parameters_def)
  qed
  then show "placed env
      (andThen (call Opt_step (params_list m) (step (torch env) opt' (parameters m) g))
         (\<lambda>r. modify (\<lambda>h. h\<lparr>opt := Some (fst r), model := Some (set_parameters m (snd r))\<rparr>)))
      (\<lambda>u. True)"
    by (rule placed_andThen)
       (auto intro!: placed_modify simp: placed_model_def params_list_def set_parameters_def)
qed

lemma lookup_Some: "lookup d k = Inr x \<Longrightarrow> d k = Some x"
  by (simp add: lookup_def split: option.splits)

lemma placed_train_step:
  assumes laws: "device_laws env" and data: "resides env data"
  shows "placed env (train_step env data) (\<lambda>u. True)"
proof -
  note mb = law_minibatch [OF laws data]
  have x: "placed env (lift (lookup (mb_node_features (gb env) data) ''feat'')) (resides env)"
    by (rule placed_lift) (rule mb(3) [OF lookup_Some])
  have loss: "placed env (call F_cross_entropy [p, mb_labels (gb env) data]
        (cross_entropy (torch env) p (mb_labels (gb env) data))) (resides env)"
    if "resides env p" for p
    by (rule placed_call)
       (use that mb(1) in \<open>auto simp: resident_event_def intro: law_cross_entropy [OF laws]\<close>)
  have acc: "placed env (andThen (call Accuracy_score [a, b] (accuracy_score (py env) a b))
        (\<lambda>accuracy. emit (Postfix (fmt3 (py env) l) (fmt3 (py env) accuracy)))) (\<lambda>u. True)"
    for a b l
    by (intro placed_andThen [OF placed_call [where Q = "\<lambda>g. True"]] placed_emit)
       (simp_all add: resident_event_def)
  show ?thesis
    unfolding train_step_def Let_def
    apply (rule placed_andThen [OF x])
    apply (rule placed_andThen [OF placed_model_call [OF laws mb(2)]], assumption)
    apply (rule placed_andThen [OF loss], assumption)
    apply (rule placed_seq [OF placed_opt_zero_grad])
    apply (rule placed_seq [OF placed_loss_backward], assumption)
    apply (rule placed_seq [OF placed_opt_step [OF laws]])
    apply (rule acc)
    done
qed

lemma placed_next:
  "resident_item env r \<Longrightarrow> placed env (call Next [] r) (resides env)"
  by (rule placed_call) (auto simp: resident_event_def)

lemma placed_train_iteration:
  "device_laws env \<Longrightarrow> resident_item env r \<Longrightarrow> placed env (train_iteration env r) (\<lambda>u. True)"
  unfolding train_iteration_def
  by (rule placed_andThen [OF placed_next]) (auto intro: placed_train_step)

lemma placed_train_loop:
  "device_laws env \<Longrightarrow> list_all (resident_item env) items \<Longrightarrow>
     placed env (train_loop env items) (\<lambda>u. True)"
  by (induction items) (auto intro!: placed_ret placed_seq placed_train_iteration)

lemma placed_iter_loader:
  "resident_loader env dl \<Longrightarrow> placed env (iter_loader env dl) (list_all (resident_item env))"
  unfolding iter_loader_def
  by (intro placed_seq [OF placed_emit [where Q = "\<lambda>u. True"]] placed_andThen [OF placed_fresh]
        placed_ret)
     (simp_all add: resident_event_def resident_loader_def)

lemma placed_set_mode:
  "placed env (andThen get_model (\<lambda>m. seq (emit (Call a []))
     (modify (\<lambda>h. h\<lparr>model := Some (set_training m b)\<rparr>)))) (\<lambda>u. True)"
  by (intro placed_andThen [OF placed_get_model] placed_seq [OF placed_emit [where Q = "\<lambda>u. True"]]
        placed_modify)
     (cases a; simp_all add: resident_event_def placed_model_def params_list_def set_training_def)+

lemma placed_train_phase:
  "device_laws env \<Longrightarrow> resident_loader env dl \<Longrightarrow> placed env (train_phase env dl) (\<lambda>u. True)"
  unfolding train_phase_def model_train_def
  by (intro placed_seq [OF placed_set_mode] placed_with_block
        placed_andThen [OF placed_iter_loader] placed_train_loop)

lemma placed_valid_loop:
  assumes laws: "device_laws env"
  shows "list_all (resident_item env) items \<Longrightarrow>
     placed env (valid_loop env items predictions labels) (\<lambda>u. True)"
proof (induction items arbitrary: predictions labels)
  case Nil
  show ?case by (simp add: placed_ret)
next
  case (Cons r rest)
  from Cons.prems have r: "resident_item env r" and rest: "list_all (resident_item env) rest"
    by simp_all
  have body: "placed env
      (andThen (lift (lookup (mb_node_features (gb env) data) ''feat'')) (\<lambda>x.
       let labels = labels @ [numpy (torch env) (cpu (torch env) (mb_labels (gb env) data))] in
       andThen (model_call env (mb_blocks (gb env) data) x) (\<lambda>p.
       let predictions = predictions @ [numpy (torch env) (cpu (torch env) (argmax (torch env) p 1))]
       in valid_loop env rest predictions labels))) (\<lambda>u. True)"
    if data: "resides env data" for data
  proof -
    note mb = law_minibatch [OF laws data]
    have x: "placed env (lift (lookup (mb_node_features (gb env) data) ''feat'')) (resides env)"
      by (rule placed_lift) (rule mb(3) [OF lookup_Some])
    show ?thesis
      unfolding Let_def
      apply (rule placed_andThen [OF x])
      apply (rule placed_andThen [OF placed_model_call [OF laws mb(2)]], assumption)
      apply (rule Cons.IH [OF rest])
      done
  qed
  show ?case
    unfolding valid_loop.simps
    by (rule placed_andThen [OF placed_next [OF r]]) (rule body)
qed

lemma placed_valid_report: "placed env (valid_report env' epoch predictions labels) (\<lambda>u. True)"
  unfolding valid_report_def
  by (intro placed_andThen [OF placed_call [where Q = "\<lambda>g. True"]] placed_emit)
     (simp_all add: resident_event_def)

lemma placed_valid_body:
  "device_laws env \<Longrightarrow> resident_loader env dl \<Longrightarrow> placed env (valid_body env dl epoch) (\<lambda>u. True)"
  unfolding valid_body_def
  by (intro placed_andThen [OF placed_iter_loader] placed_andThen [OF placed_valid_loop]
        placed_valid_report)

lemma placed_valid_phase:
  "device_laws env \<Longrightarrow> resident_loader env dl \<Longrightarrow> placed env (valid_phase env dl epoch) (\<lambda>u. True)"
  unfolding valid_phase_def model_eval_def
  by (intro placed_seq [OF placed_set_mode] placed_with_block placed_valid_body)

lemma placed_run_epoch:
  "device_laws env \<Longrightarrow> resident_loader env tdl \<Longrightarrow> resident_loader env vdl \<Longrightarrow>
     placed env (run_epoch env tdl vdl epoch) (\<lambda>u. True)"
  unfolding run_epoch_def by (rule placed_seq [OF placed_train_phase placed_valid_phase])

lemma placed_epochs:
  "device_laws env \<Longrightarrow> resident_loader env tdl \<Longrightarrow> resident_loader env vdl \<Longrightarrow>
     placed env (epochs env tdl vdl es) (\<lambda>u. True)"
  by (induction es) (auto intro!: placed_ret placed_seq placed_run_epoch)

lemma placed_cell_train:
  "device_laws env \<Longrightarrow> resident_loader env tdl \<Longrightarrow> resident_loader env vdl \<Longrightarrow>
     placed env (cell_train env tdl vdl) (\<lambda>u. True)"
  unfolding cell_train_def by (intro placed_seq [OF placed_import] placed_epochs)

text \<open>The loaders.\<close>

lemma resident_pipe:
  assumes laws: "device_laws env" and gr: "resides env gr" and fs: "resides env fs"
  shows "list_all (resident_item env)
     (run_datapipe env (fetch_feature (sample_neighbor (copy_to (ItemSampler itemset n sh) device attrs)
        gr fanouts) fs keys) k)"
proof -
  have through: "resides env c"
    if "run_copy_to (gb env) device attrs a = Inr b"
      and "run_sample_neighbor (gb env) gr fanouts b = Inr b'"
      and "run_fetch_feature (gb env) fs keys b' = Inr c" for a b b' c
    using law_fetch_feature [OF laws fs
        law_sample_neighbor [OF laws gr law_copy_to [OF laws that(1)] that(2)] that(3)] .
  have "resident_item env
      (bindE (bindE (bindE r (run_copy_to (gb env) device attrs))
         (run_sample_neighbor (gb env) gr fanouts)) (run_fetch_feature (gb env) fs keys))" for r
    by (auto simp: bindE_def split: sum.splits intro: through)
  then show ?thesis
    by (simp add: list_all_iff)
qed

lemma create_dataloader_resident:
  assumes "device_laws env" and "resides env (graph g)" and "resides env (feature g)"
    and "result (create_dataloader g itemset shuffle h) = Inr dl"
  shows "resident_loader env dl"
proof -
  from assms(4) have "dl = DataLoader (fetch_feature (sample_neighbor
      (copy_to (ItemSampler itemset 1024 shuffle) device [''seeds'']) (graph g) [4, 4])
      (feature g) [''feat''])"
    by (simp add: create_dataloader_def Let_def seq_def andThen_def emit_def ret_def)
  then show ?thesis
    unfolding resident_loader_def using resident_pipe [OF assms(1-3)] by simp
qed

lemma placed_create_dataloader:
  assumes "device_laws env" and "resides env (graph g)" and "resides env (feature g)"
  shows "placed env (create_dataloader g itemset shuffle) (resident_loader env)"
proof -
  have "placed env (create_dataloader g itemset shuffle) (\<lambda>dl. True)"
    by (simp add: create_dataloader_def Let_def placed_seq [OF placed_emit [where Q = "\<lambda>u. True"]]
        placed_ret resident_event_def)
  then show ?thesis
    using create_dataloader_resident [OF assms]
    by (auto simp: placed_def)
qed

lemma placed_cell_loaders:
  assumes "device_laws env" and "resides env (graph g)" and "resides env (feature g)"
  shows "placed env (cell_loaders env g)
     (\<lambda>loaders. resident_loader env (fst loaders) \<and> resident_loader env (snd loaders))"
  unfolding cell_loaders_def
  by (intro placed_andThen [OF placed_create_dataloader [OF assms]]
        placed_seq [OF placed_import] placed_ret) simp

lemma placed_cell_opt: "placed env (cell_opt env') (\<lambda>u. True)"
  unfolding cell_opt_def
  by (intro placed_andThen [OF placed_get_model] placed_andThen [OF placed_call [where Q = "\<lambda>g. True"]]
        placed_modify)
     (simp_all add: resident_event_def placed_model_def)

text \<open>The model cell places the model, whatever was on the heap.\<close>

lemma Model_to_resides:
  assumes "device_laws env" and "result (Model_to env m device h) = Inr m'"
  shows "list_all (resides env) (params_list m')"
  using assms(2) unfolding Model_to_def
  by (elim andThen_returns) (auto simp: params_list_def set_parameters_def dest: law_module_to [OF assms(1)])

lemma cell_model_placed:
  assumes "device_laws env" and "result (cell_model env g h) = Inr u"
  shows "\<exists>m. model (heap_of (cell_model env g h)) = Some m \<and> list_all (resides env) (params_list m)"
  using assms(2) unfolding cell_model_def
  apply (elim andThen_returns seq_returns)
  apply (auto dest!: Model_to_resides [OF assms(1)])
  done

lemma list_all_events_andThen:
  assumes "list_all E (events (m h))"
    and "\<And>x. result (m h) = Inr x \<Longrightarrow> list_all E (events (f x (heap_of (m h))))"
  shows "list_all E (events (andThen m f h))"
proof (cases rule: prog_cases [of m h])
  case (fails e h' t)
  with assms(1) show ?thesis by (simp add: andThen_Inl)
next
  case (returns x h' t)
  with assms show ?thesis
    by (simp add: andThen_Inr [where m = m and h = h, OF returns])
qed

lemma list_all_events_seq:
  assumes "list_all E (events (m h))"
    and "\<And>x. result (m h) = Inr x \<Longrightarrow> list_all E (events (n (heap_of (m h))))"
  shows "list_all E (events (seq m n h))"
  unfolding seq_def using assms by (rule list_all_events_andThen)

lemma quiet_sat:
  "sat files E m \<Longrightarrow> (\<And>ev. E ev \<Longrightarrow> tensor_args ev = []) \<Longrightarrow>
     list_all (resident_event env) (events (m h))"
  by (rule quiet_events [OF satD(2)])

lemma resident_training_cells:
  assumes laws: "device_laws env" and gr: "resides env (graph g)" and fs: "resides env (feature g)"
  shows "list_all (resident_event env) (events (training_cells env g h))"
  unfolding training_cells_def
proof (rule list_all_events_seq)
  show "list_all (resident_event env) (events (cell_model env g h))"
    by (rule quiet_sat [OF sat_cell_model setup_quiet]) (simp_all add: rng_free_def build_free_def)
next
  fix u :: unit
  assume "result (cell_model env g h) = Inr u"
  from cell_model_placed [OF laws this]
  have pm: "placed_model env (heap_of (cell_model env g h))"
    by (auto simp: placed_model_def)
  have "placed env (seq (cell_opt env)
      (andThen (cell_loaders env g) (\<lambda>loaders. cell_train env (fst loaders) (snd loaders))))
      (\<lambda>u. True)"
    by (intro placed_seq [OF placed_cell_opt] placed_andThen [OF placed_cell_loaders [OF assms]]
        placed_cell_train laws) simp_all
  from placedD(2) [OF this pm]
  show "list_all (resident_event env) (events (seq (cell_opt env)
      (andThen (cell_loaders env g) (\<lambda>loaders. cell_train env (fst loaders) (snd loaders)))
      (heap_of (cell_model env g h))))" .
qed

lemma cell_task_resides:
  assumes "device_laws env" and "result (cell_task env dataset h) = Inr g"
  shows "resides env (graph g)" and "resides env (feature g)"
  using cell_task_returns [OF assms(2)] law_to_device [OF assms(1)] by blast+

lemma resident_after_install:
  assumes laws: "device_laws env"
  shows "list_all (resident_event env) (events (after_install env installed h))"
  unfolding after_install_def
proof (rule list_all_events_andThen)
  show "list_all (resident_event env) (events (cell_dataset env installed h))"
    by (rule quiet_sat [OF sat_cell_dataset setup_quiet])
next
  fix dataset
  assume "result (cell_dataset env installed h) = Inr dataset"
  let ?h = "heap_of (cell_dataset env installed h)"
  show "list_all (resident_event env)
      (events (andThen (cell_task env dataset)
         (\<lambda>g. seq (preview_cells env g) (training_cells env g)) ?h))"
  proof (rule list_all_events_andThen)
    show "list_all (resident_event env) (events (cell_task env dataset ?h))"
      by (rule quiet_sat [OF sat_cell_task setup_quiet])
  next
    fix g
    assume g: "result (cell_task env dataset ?h) = Inr g"
    let ?h' = "heap_of (cell_task env dataset ?h)"
    have "sat files setup_event (preview_cells env g)"
      unfolding preview_cells_def
      by (intro sat_andThen sat_cell_preview sat_cell_input_nodes) (simp add: rng_free_def)
    then have "list_all (resident_event env) (events (preview_cells env g ?h'))"
      by (rule quiet_sat [OF _ setup_quiet])
    then show "list_all (resident_event env)
        (events (seq (preview_cells env g) (training_cells env g) ?h'))"
      by (rule list_all_events_seq)
         (rule resident_training_cells [OF laws cell_task_resides [OF laws g]])
  qed
qed

lemma resident_notebook:
  assumes laws: "device_laws env"
  shows "list_all (resident_event env) (events (notebook env h))"
  unfolding notebook_def
proof (rule list_all_events_andThen)
  show "list_all (resident_event env) (events (cell_install env h))"
    by (rule quiet_sat [OF sat_cell_install install_quiet])
qed (rule resident_after_install [OF laws])

lemma list_all_concat_map:
  "list_all E t \<Longrightarrow> (\<And>ev. E ev \<Longrightarrow> list_all P (f ev)) \<Longrightarrow> list_all P (concat (map f t))"
  by (induction t) simp_all

lemma devices_notebook:
  "list_all (\<lambda>d. d = Device ''cpu'') (concat (map event_devices (events (notebook env h))))"
  by (rule list_all_concat_map [OF satD(2) [OF sat_notebook] notebook_event_devices])

lemma pipe_devices_create_dataloader:
  "result (create_dataloader g itemset shuffle h) = Inr dl \<Longrightarrow>
     pipe_devices (pipe_of dl) = [Device ''cpu'']"
  by (auto simp: result_create_dataloader device_def)

text \<open>
  C10. The compute device is unconditionally CPU: device is set to \<^verbatim>\<open>torch.device("cpu")\<close>
  regardless of GPU availability, and the graph, the feature store, every minibatch (via
  \<^verbatim>\<open>copy_to\<close>), and the model are all placed on that CPU device, so every tensor the notebook
  computes with resides on CPU.

  The device is the constant \<open>Device ''cpu''\<close>, which no answer of a library enters; every
  device that a run of the notebook names, in a \<^verbatim>\<open>.to\<close> or in the \<^verbatim>\<open>copy_to\<close> stage of a new
  loader, is that one, and the pipe of every loader names it once. Where an object then is,
  is the libraries' doing: under \<open>device_laws\<close> (a placement puts an object on the device it
  names, and an operation on objects of the device gives an object of the device), the graph
  and the feature store that the task cell binds, every minibatch that a loader yields, and
  the parameters of the model that the model cell binds reside on the device; training
  leaves the parameters there; and in every run, from every heap and on every path, all that
  is given to the model, the loss, the backward pass and the optimizer step resides on it.
\<close>

theorem C10_everything_on_cpu:
  "device = Device ''cpu'' \<and>
   list_all (\<lambda>d. d = Device ''cpu'') (concat (map event_devices (events (notebook env h)))) \<and>
   (\<forall>dl. result (create_dataloader g itemset shuffle h) = Inr dl \<longrightarrow>
      pipe_devices (pipe_of dl) = [Device ''cpu'']) \<and>
   (device_laws env \<longrightarrow>
      (\<forall>g'. result (cell_task env dataset h) = Inr g' \<longrightarrow>
         resides env (graph g') \<and> resides env (feature g')) \<and>
      (\<forall>dl. resides env (graph g) \<and> resides env (feature g) \<and>
         result (create_dataloader g itemset shuffle h) = Inr dl \<longrightarrow> resident_loader env dl) \<and>
      (result (cell_model env g h) = Inr () \<longrightarrow>
         (\<exists>m. model (heap_of (cell_model env g h)) = Some m \<and>
            list_all (resides env) (params_list m))) \<and>
      (placed_model env h' \<and> resident_loader env train_dataloader \<and>
         resident_loader env valid_dataloader \<longrightarrow>
         placed_model env (heap_of (cell_train env train_dataloader valid_dataloader h'))) \<and>
      list_all (resident_event env) (events (notebook env h)))"
proof (intro conjI impI allI)
  show "device = Device ''cpu''"
    by (simp add: device_def)
  show "list_all (\<lambda>d. d = Device ''cpu'') (concat (map event_devices (events (notebook env h))))"
    by (rule devices_notebook)
  show "pipe_devices (pipe_of dl) = [Device ''cpu'']"
    if "result (create_dataloader g itemset shuffle h) = Inr dl" for dl
    using that by (rule pipe_devices_create_dataloader)
next
  fix g'
  assume "device_laws env" and "result (cell_task env dataset h) = Inr g'"
  then show "resides env (graph g')" and "resides env (feature g')"
    by (rule cell_task_resides)+
next
  fix dl
  assume "device_laws env" and "resides env (graph g) \<and> resides env (feature g) \<and>
         result (create_dataloader g itemset shuffle h) = Inr dl"
  then show "resident_loader env dl"
    by (blast intro: create_dataloader_resident)
next
  assume "device_laws env" and "result (cell_model env g h) = Inr ()"
  then show "\<exists>m. model (heap_of (cell_model env g h)) = Some m \<and>
            list_all (resides env) (params_list m)"
    by (rule cell_model_placed)
next
  assume "device_laws env" and "placed_model env h' \<and> resident_loader env train_dataloader \<and>
         resident_loader env valid_dataloader"
  then show "placed_model env (heap_of (cell_train env train_dataloader valid_dataloader h'))"
    by (blast intro: placedD(1) [OF placed_cell_train])
next
  assume "device_laws env"
  then show "list_all (resident_event env) (events (notebook env h))"
    by (rule resident_notebook)
qed

text \<open>
  On the machine with a GPU, where the dataset, the batches and the new weights start on
  \<open>cuda:0\<close>: the notebook runs to its end, and what it computes with is on the CPU.
\<close>

theorem C10_witness:
  "device_laws tagged_env \<and>
   device_of (torch tagged_env) (ds_graph (gb tagged_env) (''dataset'', gpu)) = Device ''cuda:0'' \<and>
   result (cell_task tagged_env (''dataset'', gpu) tagged_heap0) = Inr tagged_globals \<and>
   resides tagged_env (graph tagged_globals) \<and> resides tagged_env (feature tagged_globals) \<and>
   (\<exists>dl. result (create_dataloader tagged_globals (''train'', gpu) True tagged_heap0) = Inr dl \<and>
      pipe_devices (pipe_of dl) = [Device ''cpu''] \<and> resident_loader tagged_env dl \<and>
      run_datapipe tagged_env (pipe_of dl) 0 =
        [Inr (''train0'', Device ''cpu''), Inr (''train1'', Device ''cpu'')]) \<and>
   result (cell_model tagged_env tagged_globals tagged_heap0) = Inr () \<and>
   (\<exists>m. model (heap_of (cell_model tagged_env tagged_globals tagged_heap0)) = Some m \<and>
      params_list m = [(''w'', Device ''cpu''), (''w'', Device ''cpu'')]) \<and>
   result (notebook tagged_env tagged_heap0) = Inr () \<and>
   Call Model_call [(''mfg0'', Device ''cpu''), (''mfg1'', Device ''cpu''), (''x'', Device ''cpu''),
     (''w'', Device ''cpu''), (''w'', Device ''cpu'')]
     \<in> set (events (notebook tagged_env tagged_heap0)) \<and>
   list_all (resident_event tagged_env) (events (notebook tagged_env tagged_heap0)) \<and>
   list_all (\<lambda>d. d = Device ''cpu'')
     (concat (map event_devices (events (notebook tagged_env tagged_heap0))))"
proof -
  let ?dl = "DataLoader (fetch_feature (sample_neighbor
      (copy_to (ItemSampler (''train'', gpu) 1024 True) device [''seeds''])
      (graph tagged_globals) [4, 4]) (feature tagged_globals) [''feat''])"
  have laws: "device_laws tagged_env"
    by (simp add: device_laws_def resides_def tagged_env_def tagged_gb_def tagged_torch_def
        device_def split: if_splits)
  have start: "device_of (torch tagged_env) (ds_graph (gb tagged_env) (''dataset'', gpu)) =
      Device ''cuda:0''"
    by (simp add: tagged_env_def tagged_gb_def tagged_torch_def gpu_def)
  have task: "result (cell_task tagged_env (''dataset'', gpu) tagged_heap0) = Inr tagged_globals"
    by code_simp
  have dl: "result (create_dataloader tagged_globals (''train'', gpu) True tagged_heap0) = Inr ?dl"
    by (rule result_create_dataloader)
  have pass: "run_datapipe tagged_env (pipe_of ?dl) 0 =
      [Inr (''train0'', Device ''cpu''), Inr (''train1'', Device ''cpu'')]"
    by code_simp
  have model: "result (cell_model tagged_env tagged_globals tagged_heap0) = Inr ()"
    by code_simp
  have ps: "map_option params_list (model (heap_of (cell_model tagged_env tagged_globals tagged_heap0))) =
      Some [(''w'', Device ''cpu''), (''w'', Device ''cpu'')]"
    by code_simp
  have run: "result (notebook tagged_env tagged_heap0) = Inr ()"
    by code_simp
  have call: "Call Model_call [(''mfg0'', Device ''cpu''), (''mfg1'', Device ''cpu''),
      (''x'', Device ''cpu''), (''w'', Device ''cpu''), (''w'', Device ''cpu'')]
     \<in> set (events (notebook tagged_env tagged_heap0))"
    by code_simp
  note c10 = C10_everything_on_cpu [of tagged_env tagged_heap0 tagged_globals "(''train'', gpu)" True
      "(''dataset'', gpu)" tagged_heap0 ?dl ?dl]
  from c10 laws task have g: "resides tagged_env (graph tagged_globals)"
      "resides tagged_env (feature tagged_globals)"
    by blast+
  from c10 laws g dl have loader: "pipe_devices (pipe_of ?dl) = [Device ''cpu'']"
      "resident_loader tagged_env ?dl"
    by blast+
  from c10 laws have evs: "list_all (resident_event tagged_env) (events (notebook tagged_env tagged_heap0))"
      "list_all (\<lambda>d. d = Device ''cpu'')
         (concat (map event_devices (events (notebook tagged_env tagged_heap0))))"
    by blast+
  from ps have "\<exists>m. model (heap_of (cell_model tagged_env tagged_globals tagged_heap0)) = Some m \<and>
      params_list m = [(''w'', Device ''cpu''), (''w'', Device ''cpu'')]"
    by auto
  with laws start task g dl pass loader model run call evs show ?thesis
    by blast
qed

end
